theory Spec2Isabelle
  imports Complex_Main
begin

section \<open>Data frames\<close>

text \<open>
  The notebook works on pandas data frames.  A frame is modelled by its header (the
  column labels in order, each with the dtype pandas keeps for the column) and its rows;
  a row gives the cell under every label.  The null values of pandas (\<open>NaN\<close>, \<open>None\<close>,
  \<open>NaT\<close>) are the one cell \<open>NA\<close>.  A timestamp cell holds the 64-bit nanosecond count
  pandas stores: wall-clock time for a naive column (\<open>datetime64[ns]\<close>), the UTC instant
  for a zone-aware one (\<open>datetime64[ns, tz]\<close>); the zone lives in the dtype.  Whole
  numbers (counts) are \<open>IntV\<close> cells, also where pandas holds them as floats; coordinates
  are \<open>FltV\<close> cells and are only ever copied.
\<close>

datatype dtype = object | int64 | float64 | datetime64 | datetime64tz string

datatype cell = NA | StrV string | IntV int | FltV rat | TsV int

text \<open>The exceptions the notebook can raise.  \<open>OutsideModel\<close> is no exception of Python:
  it marks a run that pandas continues with a value these frames cannot hold (labels
  that repeat, a floating-point sum that is not exact), so that nothing is said about
  it.\<close>

datatype error =
    KeyError string
  | AttributeError string
  | TypeError string
  | ValueError string
  | UndefinedVariableError string
  | UnknownTimeZoneError string
  | AmbiguousTimeError int
  | OutsideModel string

type_synonym row = "string \<Rightarrow> cell"

record dataframe =
  header :: "(string \<times> dtype) list"
  rows :: "row list"

definition names :: "dataframe \<Rightarrow> string list" where
  "names df = map fst (header df)"

definition col_dtype :: "dataframe \<Rightarrow> string \<Rightarrow> dtype" where
  "col_dtype df c = (case map_of (header df) c of Some t \<Rightarrow> t | None \<Rightarrow> object)"

text \<open>\<open>df[c]\<close> raises \<open>KeyError\<close> on a label the frame lacks: the labels of \<open>cs\<close> that
  are missing, in the order the code reads them.\<close>

definition missing :: "string list \<Rightarrow> dataframe \<Rightarrow> string list" where
  "missing cs df = filter (\<lambda>c. c \<notin> set (names df)) cs"

definition bindE :: "error + 'a \<Rightarrow> ('a \<Rightarrow> error + 'b) \<Rightarrow> error + 'b" where
  "bindE m f = (case m of Inl e \<Rightarrow> Inl e | Inr x \<Rightarrow> f x)"

definition upd_header :: "string \<Rightarrow> dtype \<Rightarrow> (string \<times> dtype) list \<Rightarrow> (string \<times> dtype) list" where
  "upd_header c t h =
     (if c \<in> set (map fst h) then map (\<lambda>(n, u). if n = c then (n, t) else (n, u)) h
      else h @ [(c, t)])"

text \<open>\<open>df[c] = series\<close>: the column is replaced, or appended when the label is new.  The
  series is computed from the frame itself, so it is given per row.\<close>

definition set_col :: "string \<Rightarrow> dtype \<Rightarrow> (row \<Rightarrow> cell) \<Rightarrow> dataframe \<Rightarrow> dataframe" where
  "set_col c t v df =
     \<lparr>header = upd_header c t (header df), rows = map (\<lambda>r. r(c := v r)) (rows df)\<rparr>"

text \<open>\<open>df.loc[mask, c] = value\<close>: only the rows of the mask are written.  A new label is
  appended and is null on the rows outside the mask; an existing column keeps its dtype
  and its cells outside the mask.\<close>

definition loc_set :: "(row \<Rightarrow> bool) \<Rightarrow> string \<Rightarrow> dtype \<Rightarrow> (row \<Rightarrow> cell) \<Rightarrow> dataframe \<Rightarrow> dataframe" where
  "loc_set sel c t v df =
     \<lparr>header = (if c \<in> set (names df) then header df else header df @ [(c, t)]),
      rows = map (\<lambda>r. r(c := (if sel r then v r else if c \<in> set (names df) then r c else NA)))
               (rows df)\<rparr>"

text \<open>\<open>series.isin(values)\<close> for a list of strings; a null cell is in no list.\<close>

definition isin :: "string list \<Rightarrow> cell \<Rightarrow> bool" where
  "isin vs x = (x \<in> set (map StrV vs))"

definition notnull :: "cell \<Rightarrow> bool" where
  "notnull x = (x \<noteq> NA)"

definition isnull :: "cell \<Rightarrow> bool" where
  "isnull x = (x = NA)"

text \<open>One statement \<open>df.loc[mask, c] = value\<close>: \<open>reads\<close> are the labels the statement
  reads with \<open>df[...]\<close>, in evaluation order (right-hand side first).\<close>

definition loc_assign ::
  "string list \<Rightarrow> (row \<Rightarrow> bool) \<Rightarrow> string \<Rightarrow> dtype \<Rightarrow> (row \<Rightarrow> cell) \<Rightarrow> dataframe \<Rightarrow> error + dataframe" where
  "loc_assign reads sel c t v df =
     (case missing reads df of
        k # _ \<Rightarrow> Inl (KeyError k)
      | [] \<Rightarrow> Inr (loc_set sel c t v df))"

text \<open>\<open>df.loc[mask, c] = scalar\<close>.  As above, but on a frame without rows a scalar
  cannot create a new column: pandas raises \<open>ValueError\<close>.\<close>

definition loc_assign_scalar ::
  "string list \<Rightarrow> (row \<Rightarrow> bool) \<Rightarrow> string \<Rightarrow> dtype \<Rightarrow> cell \<Rightarrow> dataframe \<Rightarrow> error + dataframe" where
  "loc_assign_scalar reads sel c t x df =
     (case missing reads df of
        k # _ \<Rightarrow> Inl (KeyError k)
      | [] \<Rightarrow>
          if rows df = [] \<and> c \<notin> set (names df)
          then Inl (ValueError ''cannot set a frame with no defined index and a scalar'')
          else Inr (loc_set sel c t (\<lambda>r. x) df))"

text \<open>The column \<open>df[c]\<close> as pandas holds it: its dtype and its cells, row by row; and
  the assignment of such a series to a label.\<close>

definition series :: "dataframe \<Rightarrow> string \<Rightarrow> dtype \<times> cell list" where
  "series df c = (col_dtype df c, map (\<lambda>r. r c) (rows df))"

definition set_series :: "string \<Rightarrow> dtype \<times> cell list \<Rightarrow> dataframe \<Rightarrow> dataframe" where
  "set_series c s df =
     \<lparr>header = upd_header c (fst s) (header df),
      rows = map (\<lambda>(r, x). r(c := x)) (zip (rows df) (snd s))\<rparr>"

fun mapE :: "('a \<Rightarrow> error + 'b) \<Rightarrow> 'a list \<Rightarrow> error + 'b list" where
  "mapE f [] = Inr []"
| "mapE f (x # xs) =
     (case f x of
        Inl e \<Rightarrow> Inl e
      | Inr y \<Rightarrow> (case mapE f xs of Inl e \<Rightarrow> Inl e | Inr ys \<Rightarrow> Inr (y # ys)))"

section \<open>Time zones (cell 2, \<open>change_timezone_of_field\<close>)\<close>

text \<open>
  The zone database of pytz is a parameter: \<open>db z = None\<close> for a name pytz does not
  know, otherwise \<open>db z = Some f\<close> where \<open>f w\<close> is the UTC instant of the wall-clock time
  \<open>w\<close> in that zone, or \<open>None\<close> where the wall-clock time is ambiguous or does not exist
  (pandas raises there by default).  \<open>UTC\<close> needs no table.
\<close>

type_synonym tzdb = "string \<Rightarrow> (int \<Rightarrow> int option) option"

definition zone_info :: "tzdb \<Rightarrow> string \<Rightarrow> (int \<Rightarrow> int option) option" where
  "zone_info db z = (if z = ''UTC'' then Some (\<lambda>w. Some w) else db z)"

definition localize_cell :: "(int \<Rightarrow> int option) \<Rightarrow> cell \<Rightarrow> error + cell" where
  "localize_cell f x =
     (case x of
        TsV w \<Rightarrow> (case f w of None \<Rightarrow> Inl (AmbiguousTimeError w) | Some i \<Rightarrow> Inr (TsV i))
      | _ \<Rightarrow> Inr NA)"

text \<open>\<open>series.dt.tz_localize(zone)\<close>.  pandas accepts a naive datetime series only: on a
  zone-aware one it raises \<open>TypeError: Already tz-aware, use tz_convert to convert\<close>, and
  the \<open>.dt\<close> accessor raises \<open>AttributeError\<close> on any other dtype.\<close>

definition dt_tz_localize :: "tzdb \<Rightarrow> string \<Rightarrow> dtype \<times> cell list \<Rightarrow> error + dtype \<times> cell list" where
  "dt_tz_localize db z s =
     (case fst s of
        datetime64 \<Rightarrow>
          (case zone_info db z of
             None \<Rightarrow> Inl (UnknownTimeZoneError z)
           | Some f \<Rightarrow> bindE (mapE (localize_cell f) (snd s)) (\<lambda>xs. Inr (datetime64tz z, xs)))
      | datetime64tz _ \<Rightarrow> Inl (TypeError ''Already tz-aware, use tz_convert to convert.'')
      | _ \<Rightarrow> Inl (AttributeError ''Can only use .dt accessor with datetimelike values''))"

text \<open>\<open>series.dt.tz_convert(zone)\<close>: the instants stay, the zone of the dtype changes.\<close>

definition dt_tz_convert :: "tzdb \<Rightarrow> string \<Rightarrow> dtype \<times> cell list \<Rightarrow> error + dtype \<times> cell list" where
  "dt_tz_convert db z s =
     (case fst s of
        datetime64tz _ \<Rightarrow>
          (case zone_info db z of
             None \<Rightarrow> Inl (UnknownTimeZoneError z)
           | Some _ \<Rightarrow> Inr (datetime64tz z, snd s))
      | datetime64 \<Rightarrow>
          Inl (TypeError ''Cannot convert tz-naive timestamps, use tz_localize to localize'')
      | _ \<Rightarrow> Inl (AttributeError ''Can only use .dt accessor with datetimelike values''))"

text \<open>
  \<^verbatim>\<open>df[source_date_time_field] = df[source_date_time_field].dt.tz_localize(source_timezone)\<close>
  \<^verbatim>\<open>new_date_time_field = source_date_time_field + new_date_time_field_suffix\<close>
  \<^verbatim>\<open>df[new_date_time_field] = df[source_date_time_field].dt.tz_convert(new_timezone)\<close>
  The function mutates the caller's frame and returns nothing: the model returns the
  exception raised, if any, and the frame as the call leaves it.
\<close>

definition change_timezone_of_field ::
  "tzdb \<Rightarrow> dataframe \<Rightarrow> string \<Rightarrow> string \<Rightarrow> string \<Rightarrow> string \<Rightarrow> error option \<times> dataframe" where
  "change_timezone_of_field db df source_date_time_field new_date_time_field_suffix
       source_timezone new_timezone =
     (case missing [source_date_time_field] df of
        k # _ \<Rightarrow> (Some (KeyError k), df)
      | [] \<Rightarrow>
          (case dt_tz_localize db source_timezone (series df source_date_time_field) of
             Inl e \<Rightarrow> (Some e, df)
           | Inr s1 \<Rightarrow>
               (let df1 = set_series source_date_time_field s1 df;
                    new_date_time_field = source_date_time_field @ new_date_time_field_suffix
                in case dt_tz_convert db new_timezone (series df1 source_date_time_field) of
                     Inl e \<Rightarrow> (Some e, df1)
                   | Inr s2 \<Rightarrow> (None, set_series new_date_time_field s2 df1))))"

section \<open>Field derivation on the survey metadata\<close>

text \<open>Cell 13 of the notebook:
  \<^verbatim>\<open>sedfMetadataYYYY["ObserverText"] = sedfMetadataYYYY["Observer"]\<close>
  \<^verbatim>\<open>sedfMetadataYYYY.loc[sedfMetadataYYYY["Observer"] == "Other", "ObserverText"] = sedfMetadataYYYY["ObserverOther"]\<close>\<close>

definition populate_ObserverText :: "dataframe \<Rightarrow> error + dataframe" where
  "populate_ObserverText df =
     (case missing [''Observer''] df of
        k # _ \<Rightarrow> Inl (KeyError k)
      | [] \<Rightarrow>
          loc_assign [''ObserverOther'', ''Observer'']
            (\<lambda>r. r ''Observer'' = StrV ''Other'') ''ObserverText'' object (\<lambda>r. r ''ObserverOther'')
            (set_col ''ObserverText'' (col_dtype df ''Observer'') (\<lambda>r. r ''Observer'') df))"

text \<open>Cell 14 of the notebook:
  \<^verbatim>\<open>sedfMetadataYYYY.loc[sedfMetadataYYYY["SiteName"].isin(WA_filter), "State"] = "WA"\<close>
  \<^verbatim>\<open>sedfMetadataYYYY.loc[sedfMetadataYYYY["SiteName"].isin(OR_filter), "State"] = "OR"\<close>\<close>

definition WA_filter :: "string list" where
  "WA_filter = [''Willapa NWR'',
     ''Julia Butler Hansen Refuge for the Columbian White-tailed Deer'', ''Ridgefield NWR'']"

definition OR_filter :: "string list" where
  "OR_filter = [''Lewis and Clark NWR'', ''Tualatin River NWR'', ''Wapato Lake NWR'',
     ''Baskett Slough NWR'', ''Ankeny NWR'', ''William L. Finley NWR'', ''Nestucca Bay NWR'']"

definition populate_State :: "dataframe \<Rightarrow> error + dataframe" where
  "populate_State df =
     bindE (loc_assign_scalar [''SiteName''] (\<lambda>r. isin WA_filter (r ''SiteName'')) ''State'' object
              (StrV ''WA'') df)
       (loc_assign_scalar [''SiteName''] (\<lambda>r. isin OR_filter (r ''SiteName'')) ''State'' object
              (StrV ''OR''))"

text \<open>The notebook is a sequence of statements on one frame; a statement that raises
  ends the run.\<close>

fun steps :: "(dataframe \<Rightarrow> error + dataframe) list \<Rightarrow> dataframe \<Rightarrow> error + dataframe" where
  "steps [] df = Inr df"
| "steps (f # fs) df = bindE (f df) (steps fs)"

section \<open>Inner joins (cells 15 and 25)\<close>

text \<open>
  \<open>pd.merge(left, right, how="inner", left_on=lo, right_on=ro)\<close>.  A label that both
  frames carry gets the suffix \<open>_x\<close> on the left and \<open>_y\<close> on the right, except a join
  key that has the same label on both sides, which is kept once.  Every pair of a left
  and a right row with equal keys gives one row, in the order of the left rows; as in
  pandas, a null key matches a null key.  A missing key label raises \<open>KeyError\<close>.  Where
  labels repeat after the suffixes, pandas 1.x (which the notebook needs) returns a frame
  with repeated labels; a frame of this model has one cell per label, so that case is
  \<open>OutsideModel\<close>.
\<close>

definition overlap :: "dataframe \<Rightarrow> dataframe \<Rightarrow> string \<Rightarrow> string \<Rightarrow> string list" where
  "overlap l r lo ro = filter (\<lambda>c. c \<in> set (names r) \<and> \<not> (lo = ro \<and> c = lo)) (names l)"

definition suffixed :: "string list \<Rightarrow> string \<Rightarrow> string \<Rightarrow> string" where
  "suffixed ov sfx c = (if c \<in> set ov then c @ sfx else c)"

definition right_kept :: "(string \<times> dtype) list \<Rightarrow> string \<Rightarrow> string \<Rightarrow> (string \<times> dtype) list" where
  "right_kept h lo ro = filter (\<lambda>(c, t). \<not> (lo = ro \<and> c = ro)) h"

definition merged_header :: "dataframe \<Rightarrow> dataframe \<Rightarrow> string \<Rightarrow> string \<Rightarrow> (string \<times> dtype) list" where
  "merged_header l r lo ro =
     map (\<lambda>(c, t). (suffixed (overlap l r lo ro) ''_x'' c, t)) (header l) @
     map (\<lambda>(c, t). (suffixed (overlap l r lo ro) ''_y'' c, t)) (right_kept (header r) lo ro)"

definition merged_row :: "dataframe \<Rightarrow> dataframe \<Rightarrow> string \<Rightarrow> string \<Rightarrow> row \<Rightarrow> row \<Rightarrow> row" where
  "merged_row l r lo ro a b =
     (\<lambda>n. case map_of
              (map (\<lambda>c. (suffixed (overlap l r lo ro) ''_x'' c, a c)) (names l) @
               map (\<lambda>c. (suffixed (overlap l r lo ro) ''_y'' c, b c))
                 (map fst (right_kept (header r) lo ro))) n of
            Some x \<Rightarrow> x
          | None \<Rightarrow> NA)"

definition merge_inner :: "dataframe \<Rightarrow> dataframe \<Rightarrow> string \<Rightarrow> string \<Rightarrow> error + dataframe" where
  "merge_inner l r lo ro =
     (case missing [ro] r of
        k # _ \<Rightarrow> Inl (KeyError k)
      | [] \<Rightarrow>
          (case missing [lo] l of
             k # _ \<Rightarrow> Inl (KeyError k)
           | [] \<Rightarrow>
               if \<not> distinct (map fst (merged_header l r lo ro))
               then Inl (OutsideModel ''repeated labels'')
               else Inr \<lparr>header = merged_header l r lo ro,
                         rows = concat (map (\<lambda>a. map (merged_row l r lo ro a)
                                                   (filter (\<lambda>b. a lo = b ro) (rows r)))
                                          (rows l))\<rparr>))"

text \<open>Cell 15:
  \<^verbatim>\<open>sedfMetadataYYYY_ObservationPoint = pd.merge(sedfMetadataYYYY,sedfObservationPoint, how="inner", left_on="globalid", right_on="parentglobalid")\<close>\<close>

definition sedfMetadataYYYY_ObservationPoint :: "dataframe \<Rightarrow> dataframe \<Rightarrow> error + dataframe" where
  "sedfMetadataYYYY_ObservationPoint sedfMetadataYYYY sedfObservationPoint =
     merge_inner sedfMetadataYYYY sedfObservationPoint ''globalid'' ''parentglobalid''"

text \<open>What the specification says of an inner join \<open>j\<close> of \<open>l\<close> and \<open>r\<close> on the keys \<open>lo\<close>
  and \<open>ro\<close>, which \<open>j\<close> shows under the labels \<open>lo'\<close> and \<open>ro'\<close>: every row of \<open>j\<close> is built from
  a row of \<open>l\<close> and a row of \<open>r\<close> with equal keys and shows that key under both labels;
  \<open>j\<close> has one row per such pair; and a row of either table whose key the other table
  lacks is part of no row of \<open>j\<close>.\<close>

definition inner_join_result ::
  "dataframe \<Rightarrow> dataframe \<Rightarrow> string \<Rightarrow> string \<Rightarrow> string \<Rightarrow> string \<Rightarrow> dataframe \<Rightarrow> bool" where
  "inner_join_result l r lo ro lo' ro' j =
     ((\<forall>x \<in> set (rows j).
         x lo' = x ro' \<and>
         (\<exists>a \<in> set (rows l). \<exists>b \<in> set (rows r). a lo = b ro \<and> x = merged_row l r lo ro a b)) \<and>
      length (rows j) =
        sum_list (map (\<lambda>a. length (filter (\<lambda>b. a lo = b ro) (rows r))) (rows l)) \<and>
      (\<forall>a b. (\<forall>b' \<in> set (rows r). a lo \<noteq> b' ro) \<longrightarrow> merged_row l r lo ro a b \<notin> set (rows j)) \<and>
      (\<forall>a b. (\<forall>a' \<in> set (rows l). a' lo \<noteq> b ro) \<longrightarrow> merged_row l r lo ro a b \<notin> set (rows j)))"

section \<open>Derived fields of the joined table (cells 16 and 17)\<close>

definition Prepopulated_filter :: "string list" where
  "Prepopulated_filter = [''Ridgefield NWR'', ''Tualatin River NWR'', ''Wapato Lake NWR'']"

text \<open>Cell 16: six \<open>.loc\<close> assignments, latitude and longitude alternating.\<close>

definition populate_LatLongDD :: "dataframe \<Rightarrow> error + dataframe" where
  "populate_LatLongDD =
     steps
      [loc_assign [''Latitude_Prepopulated'', ''SiteName'', ''Latitude_Prepopulated'']
         (\<lambda>r. isin Prepopulated_filter (r ''SiteName'') \<and> notnull (r ''Latitude_Prepopulated''))
         ''LatitudeDD'' float64 (\<lambda>r. r ''Latitude_Prepopulated''),
       loc_assign [''Longitude_Prepopulated'', ''SiteName'', ''Longitude_Prepopulated'']
         (\<lambda>r. isin Prepopulated_filter (r ''SiteName'') \<and> notnull (r ''Longitude_Prepopulated''))
         ''LongitudeDD'' float64 (\<lambda>r. r ''Longitude_Prepopulated''),
       loc_assign [''Latitude'', ''SiteName'', ''Latitude_Prepopulated'']
         (\<lambda>r. isin Prepopulated_filter (r ''SiteName'') \<and> isnull (r ''Latitude_Prepopulated''))
         ''LatitudeDD'' float64 (\<lambda>r. r ''Latitude''),
       loc_assign [''Longitude'', ''SiteName'', ''Longitude_Prepopulated'']
         (\<lambda>r. isin Prepopulated_filter (r ''SiteName'') \<and> isnull (r ''Longitude_Prepopulated''))
         ''LongitudeDD'' float64 (\<lambda>r. r ''Longitude''),
       loc_assign [''Latitude'', ''SiteName'']
         (\<lambda>r. \<not> isin Prepopulated_filter (r ''SiteName''))
         ''LatitudeDD'' float64 (\<lambda>r. r ''Latitude''),
       loc_assign [''Longitude'', ''SiteName'']
         (\<lambda>r. \<not> isin Prepopulated_filter (r ''SiteName''))
         ''LongitudeDD'' float64 (\<lambda>r. r ''Longitude'')]"

text \<open>Cell 17:
  \<^verbatim>\<open>sedfMetadataYYYY_ObservationPoint["Total"] = sedfMetadataYYYY_ObservationPoint[col_list].sum(axis=1)\<close>
  \<open>sum\<close> skips nulls (\<open>skipna=True\<close>) and is 0 on a row of nulls only.  The count fields
  are integer fields of the feature layer.  Where all 17 columns are int64 the sum is
  an int64 sum, which wraps around at \<open>2^63\<close>.  Once a column holds a null pandas keeps it
  as float64, and the row is added in float64: that sum is exact, and modelled, where
  every cell is a whole number and the magnitudes add up to at most \<open>2^53\<close>.  A sum that
  involves a fraction, a larger magnitude or a column that is not numeric is
  \<open>OutsideModel\<close>.\<close>

definition col_list :: "string list" where
  "col_list = [''DuskyCount'', ''WuskyCount'', ''WesternCount'', ''TavLessCount'', ''TavCount'',
     ''LessCount'', ''AleutianCount'', ''CacklingCount'', ''UnknownCanadaCount'',
     ''UnknownCacklerCount'', ''WhiteFrontedCount'', ''SnowCount'', ''RossCount'',
     ''UnknownGooseCount'', ''TrumpeterCount'', ''TundraCount'', ''UnknownSwanCount'']"

definition wrap64 :: "int \<Rightarrow> int" where
  "wrap64 n = (n + 2 ^ 63) mod 2 ^ 64 - 2 ^ 63"

fun sum_skipna :: "cell list \<Rightarrow> error + int" where
  "sum_skipna [] = Inr 0"
| "sum_skipna (NA # xs) = sum_skipna xs"
| "sum_skipna (IntV n # xs) = bindE (sum_skipna xs) (\<lambda>s. Inr (n + s))"
| "sum_skipna (_ # xs) = Inl (OutsideModel ''sum over a cell that is no whole number'')"

definition magnitude :: "cell \<Rightarrow> int" where
  "magnitude x = (case x of IntV n \<Rightarrow> \<bar>n\<bar> | _ \<Rightarrow> 0)"

definition row_sum :: "dtype list \<Rightarrow> cell list \<Rightarrow> error + cell" where
  "row_sum ts xs =
     (if list_all (\<lambda>t. t = int64) ts
      then bindE (sum_skipna xs) (\<lambda>s. Inr (IntV (wrap64 s)))
      else if list_all (\<lambda>t. t = int64 \<or> t = float64) ts
      then bindE (sum_skipna xs) (\<lambda>s.
             if sum_list (map magnitude xs) \<le> 2 ^ 53 then Inr (IntV s)
             else Inl (OutsideModel ''float64 sum beyond 2^53''))
      else Inl (OutsideModel ''sum over a column that is not numeric''))"

definition populate_Total :: "dataframe \<Rightarrow> error + dataframe" where
  "populate_Total df =
     (case missing col_list df of
        k # _ \<Rightarrow> Inl (KeyError k)
      | [] \<Rightarrow>
          bindE (mapE (\<lambda>r. bindE (row_sum (map (col_dtype df) col_list) (map r col_list))
                                 (\<lambda>s. Inr (r(''Total'' := s))))
                   (rows df))
            (\<lambda>rs. Inr \<lparr>header = upd_header ''Total''
                                   (if list_all (\<lambda>c. col_dtype df c = int64) col_list
                                    then int64 else float64) (header df),
                        rows = rs\<rparr>))"

section \<open>String tests on column labels\<close>

fun startswith :: "string \<Rightarrow> string \<Rightarrow> bool" where
  "startswith [] s = True"
| "startswith (p # ps) [] = False"
| "startswith (p # ps) (c # cs) = (p = c \<and> startswith ps cs)"

text \<open>Python's \<open>sub in s\<close>, which \<open>DataFrame.filter(like=sub)\<close> applies to every label.\<close>

fun contains :: "string \<Rightarrow> string \<Rightarrow> bool" where
  "contains sub [] = (sub = [])"
| "contains sub (c # cs) = (startswith sub (c # cs) \<or> contains sub cs)"

text \<open>\<open>DataFrame.filter(regex='Dusky*')\<close> keeps the labels in which \<open>re.search\<close> finds the
  pattern: \<open>Dusk\<close> followed by any number of \<open>y\<close>, so the labels that contain \<open>Dusk\<close>.\<close>

definition regex_Dusky_star :: "string \<Rightarrow> bool" where
  "regex_Dusky_star name = contains ''Dusk'' name"

text \<open>The shell patterns of pyjanitor's \<open>select_columns\<close> (\<open>fnmatch\<close>), for the one shape the
  notebook uses: a literal prefix with one trailing star, matched with the case of the
  letters as written.\<close>

definition fnmatch :: "string \<Rightarrow> string \<Rightarrow> bool" where
  "fnmatch pat name =
     (if pat \<noteq> [] \<and> last pat = CHR ''*'' then startswith (butlast pat) name else pat = name)"

text \<open>Splitting a label at every occurrence of a separator (\<open>names_sep\<close> of
  \<open>pivot_longer\<close>); \<open>acc\<close> is the piece read so far, reversed.\<close>

function split_on :: "string \<Rightarrow> string \<Rightarrow> string \<Rightarrow> string list" where
  "split_on sep acc [] = [rev acc]"
| "split_on sep acc (c # cs) =
     (if sep \<noteq> [] \<and> startswith sep (c # cs)
      then rev acc # split_on sep [] (drop (length sep) (c # cs))
      else split_on sep (c # acc) cs)"
  by pat_completeness auto
termination
  by (relation "measure (\<lambda>(sep, acc, s). length s)") auto

text \<open>\<open>str.upper\<close> on ASCII text.\<close>

definition upper_ch :: "char \<Rightarrow> char" where
  "upper_ch c =
     (let n = (of_char c :: nat) in if 97 \<le> n \<and> n \<le> 122 then char_of (n - 32) else c)"

definition upper_cell :: "cell \<Rightarrow> cell" where
  "upper_cell x = (case x of StrV s \<Rightarrow> StrV (map upper_ch s) | _ \<Rightarrow> NA)"

section \<open>Selecting and renaming columns\<close>

definition restrict_row :: "string list \<Rightarrow> row \<Rightarrow> row" where
  "restrict_row cs r = (\<lambda>c. if c \<in> set cs then r c else NA)"

text \<open>\<open>df[[c1, ..., cn]]\<close>.\<close>

definition select_labels :: "string list \<Rightarrow> dataframe \<Rightarrow> error + dataframe" where
  "select_labels cs df =
     (case missing cs df of
        k # _ \<Rightarrow> Inl (KeyError k)
      | [] \<Rightarrow> Inr \<lparr>header = map (\<lambda>c. (c, col_dtype df c)) cs,
                   rows = map (restrict_row cs) (rows df)\<rparr>)"

text \<open>pyjanitor's \<open>select_columns\<close>: an entry that is a label selects it, any other entry
  is a shell pattern and selects the labels it matches, raising \<open>KeyError\<close> when there
  are none; the selections are concatenated and repeated labels dropped, first kept.\<close>

definition select_entry :: "dataframe \<Rightarrow> string \<Rightarrow> error + string list" where
  "select_entry df p =
     (if p \<in> set (names df) then Inr [p]
      else case filter (fnmatch p) (names df) of
             [] \<Rightarrow> Inl (KeyError p)
           | c # cs \<Rightarrow> Inr (c # cs))"

definition unique_first :: "string list \<Rightarrow> string list" where
  "unique_first cs = rev (remdups (rev cs))"

definition select_columns :: "string list \<Rightarrow> dataframe \<Rightarrow> error + dataframe" where
  "select_columns ps df =
     bindE (mapE (select_entry df) ps)
       (\<lambda>css. let cs = unique_first (concat css)
              in Inr \<lparr>header = map (\<lambda>c. (c, col_dtype df c)) cs,
                      rows = map (restrict_row cs) (rows df)\<rparr>)"

text \<open>pyjanitor's \<open>rename_columns(new_column_names=...)\<close>: every key must be a label
  (\<open>ValueError\<close> otherwise), then \<open>df.rename(columns=...)\<close>.\<close>

definition renamed :: "(string \<times> string) list \<Rightarrow> string \<Rightarrow> string" where
  "renamed m c = (case map_of m c of Some n \<Rightarrow> n | None \<Rightarrow> c)"

definition rename_columns :: "(string \<times> string) list \<Rightarrow> dataframe \<Rightarrow> error + dataframe" where
  "rename_columns m df =
     (case missing (map fst m) df of
        k # _ \<Rightarrow> Inl (ValueError k)
      | [] \<Rightarrow> Inr \<lparr>header = map (\<lambda>(c, t). (renamed m c, t)) (header df),
                   rows = map (\<lambda>r n. case find (\<lambda>c. renamed m c = n) (names df) of
                                        Some c \<Rightarrow> r c
                                      | None \<Rightarrow> NA) (rows df)\<rparr>)"

text \<open>pyjanitor's \<open>remove_columns\<close> (\<open>df.drop(columns=...)\<close>).\<close>

definition remove_columns :: "string list \<Rightarrow> dataframe \<Rightarrow> error + dataframe" where
  "remove_columns cs df =
     (case missing cs df of
        k # _ \<Rightarrow> Inl (KeyError k)
      | [] \<Rightarrow> Inr \<lparr>header = filter (\<lambda>(c, t). c \<notin> set cs) (header df),
                   rows = map (\<lambda>r c. if c \<in> set cs then NA else r c) (rows df)\<rparr>)"

section \<open>Dusky neckband data (cells 18 to 21)\<close>

definition neckband_columns :: "string list" where
  "neckband_columns =
     [''objectid_x'', ''globalid_x'', ''SiteName'', ''SiteNameOther'', ''Observer'',
      ''ObserverOther'', ''ObserverText'', ''State'', ''EffortDate'', ''EffortDate_Text'',
      ''FormName'', ''survey_uuid'', ''FormVersion'', ''CreationDate_x'', ''Creator_x'',
      ''EditDate_x'', ''Editor_x'', ''SHAPE_x'', ''AleutianCount'', ''CacklingCount'',
      ''CreationDate_y'', ''Creator_y'', ''DuskyBandNote'', ''DuskyCollar1'',
      ''DuskyCollar2'', ''DuskyCollar3'', ''DuskyCollar4'', ''DuskyCollar5'',
      ''DuskyCollar6'', ''DuskyCollar7'', ''DuskyCollar8'', ''DuskyCollar9'',
      ''DuskyCollar10'', ''DuskyCollar11'', ''DuskyCollar12'', ''DuskyCollar13'',
      ''DuskyCollar14'', ''DuskyCollar15'', ''DuskyCollar16'', ''DuskyCollar17'',
      ''DuskyCollar18'', ''DuskyCollar19'', ''DuskyCollar20'', ''DuskyCollar21'',
      ''DuskyCollar22'', ''DuskyCollar23'', ''DuskyCollar24'', ''DuskyCollar25'',
      ''DuskyCollar26'', ''DuskyCollar27'', ''DuskyCollar28'', ''DuskyCollar29'',
      ''DuskyCollar30'', ''DuskyCount'', ''EditDate_y'', ''Editor_y'', ''EffortNotes'',
      ''EffortTime'', ''Latitude'', ''Latitude_Prepopulated'', ''LessCount'',
      ''LocationDescription'', ''LocationDescription_ReadOnly'', ''LocationOther'',
      ''Longitude'', ''Longitude_Prepopulated'', ''NumberDuskyCollars'', ''RossCount'',
      ''SHAPE_y'', ''SnowCount'', ''TavCount'', ''TavLessCount'', ''TotalGeese'',
      ''TrumpeterCount'', ''TundraCount'', ''UnknownCacklerCount'', ''UnknownCanadaCount'',
      ''UnknownGooseCount'', ''UnknownSwanCount'', ''WesternCount'', ''WhiteFrontedCount'',
      ''WuskyCount'', ''globalid_y'', ''objectid_y'', ''parentglobalid'',
      ''CreationDate_Pacific'', ''EditDate_Pacific'', ''LatitudeDD'', ''LongitudeDD'',
      ''Total'']"

text \<open>\<open>dropna(how='all', axis=1)\<close>: the columns that are null on every row are dropped.\<close>

definition dropna_all_columns :: "dataframe \<Rightarrow> dataframe" where
  "dropna_all_columns df =
     (let keep = filter (\<lambda>(c, t). list_ex (\<lambda>r. notnull (r c)) (rows df)) (header df)
      in \<lparr>header = keep, rows = map (restrict_row (map fst keep)) (rows df)\<rparr>)"

text \<open>
  \<^verbatim>\<open>dfDuskyNeckband["Location"] = dfDuskyNeckband.SiteName.str.cat(dfDuskyNeckband.LocationDescription,sep=" ", na_rep = "")\<close>
  Attribute access raises \<open>AttributeError\<close> on a label that is gone, and so does \<open>.str\<close> on
  a column that is not of dtype object, or whose values, nulls apart, are all numbers or
  all timestamps (pandas infers the column as \<open>integer\<close>, \<open>floating\<close>,
  \<open>mixed-integer-float\<close> or \<open>datetime\<close>; with a string among the values, or any other
  mix, it infers \<open>string\<close> or \<open>mixed\<close> and \<open>.str\<close> is allowed; so it is on a column of
  nulls only); \<open>cat\<close> takes strings and nulls only.\<close>

definition na_rep_empty :: "cell \<Rightarrow> error + string" where
  "na_rep_empty x =
     (case x of
        NA \<Rightarrow> Inr []
      | StrV s \<Rightarrow> Inr s
      | _ \<Rightarrow> Inl (TypeError ''Concatenation requires list-likes containing only strings''))"

definition str_accessor_fails :: "dataframe \<Rightarrow> string \<Rightarrow> bool" where
  "str_accessor_fails df c =
     (col_dtype df c \<noteq> object \<or>
      (let vs = filter notnull (map (\<lambda>r. r c) (rows df))
       in vs \<noteq> [] \<and>
          (list_all (\<lambda>x. case x of TsV _ \<Rightarrow> True | _ \<Rightarrow> False) vs \<or>
           list_all (\<lambda>x. case x of IntV _ \<Rightarrow> True | FltV _ \<Rightarrow> True | _ \<Rightarrow> False) vs)))"

definition populate_Location :: "dataframe \<Rightarrow> error + dataframe" where
  "populate_Location df =
     (if ''SiteName'' \<notin> set (names df) then Inl (AttributeError ''SiteName'')
      else if str_accessor_fails df ''SiteName''
      then Inl (AttributeError ''Can only use .str accessor with string values'')
      else if ''LocationDescription'' \<notin> set (names df)
      then Inl (AttributeError ''LocationDescription'')
      else bindE (mapE (\<lambda>r. bindE (na_rep_empty (r ''SiteName'')) (\<lambda>a.
                             bindE (na_rep_empty (r ''LocationDescription'')) (\<lambda>b.
                               Inr (r(''Location'' := StrV (a @ '' '' @ b))))))
                    (rows df))
             (\<lambda>rs. Inr \<lparr>header = upd_header ''Location'' object (header df), rows = rs\<rparr>))"

text \<open>Cell 4 and its use in cell 19:
  \<^verbatim>\<open>df = df.apply(lambda x: x.str.upper() if x.dtype == "object" else x)\<close>
  \<^verbatim>\<open>dfDuskyColumns = dfDuskyNeckband.filter(regex='Dusky*',axis=1)\<close>
  \<^verbatim>\<open>dfDuskyNeckband[dfDuskyColumnsList] = upper_consistent(dfDuskyNeckband[dfDuskyColumnsList])\<close>
  \<open>.str.upper()\<close> is null on every cell of an object column that is not a string, and
  \<open>.str\<close> raises \<open>AttributeError\<close> on an object column whose values, nulls apart, are all
  numbers or all timestamps.\<close>

definition upper_consistent :: "string list \<Rightarrow> dataframe \<Rightarrow> error + dataframe" where
  "upper_consistent cs df =
     (case filter (\<lambda>c. col_dtype df c = object \<and> str_accessor_fails df c) cs of
        k # _ \<Rightarrow> Inl (AttributeError ''Can only use .str accessor with string values'')
      | [] \<Rightarrow>
          Inr \<lparr>header = header df,
               rows = map (\<lambda>r c. if c \<in> set cs \<and> col_dtype df c = object then upper_cell (r c)
                                  else r c)
                        (rows df)\<rparr>)"

definition uppercase_Dusky_columns :: "dataframe \<Rightarrow> error + dataframe" where
  "uppercase_Dusky_columns df = upper_consistent (filter regex_Dusky_star (names df)) df"

text \<open>
  \<^verbatim>\<open># Select only rows where DuskyCollar is not null\<close>
  \<^verbatim>\<open>dfDuskyNeckband = dfDuskyNeckband[~dfDuskyNeckband.filter(like='DuskyCollar').isna().all(1)]\<close>\<close>

definition like_columns :: "string \<Rightarrow> dataframe \<Rightarrow> string list" where
  "like_columns sub df = filter (contains sub) (names df)"

definition select_DuskyCollar_rows :: "dataframe \<Rightarrow> dataframe" where
  "select_DuskyCollar_rows df =
     \<lparr>header = header df,
      rows = filter (\<lambda>r. \<not> list_all (\<lambda>c. isnull (r c)) (like_columns ''DuskyCollar'' df))
               (rows df)\<rparr>"

definition dfDuskyNeckband :: "dataframe \<Rightarrow> error + dataframe" where
  "dfDuskyNeckband =
     steps
      [select_labels neckband_columns,
       (\<lambda>df. Inr (dropna_all_columns df)),
       (\<lambda>df. Inr (set_col ''Prec'' object (\<lambda>r. StrV ''0'') df)),
       populate_Location,
       uppercase_Dusky_columns,
       (\<lambda>df. Inr (select_DuskyCollar_rows df))]"

text \<open>Cell 20, the export to refuge staff, and cell 21, the export to Migratory Birds.\<close>

definition dfDuskyNeckbandNWR :: "dataframe \<Rightarrow> error + dataframe" where
  "dfDuskyNeckbandNWR =
     steps
      [dfDuskyNeckband,
       select_columns
        [''globalid_y'', ''SiteName'', ''LocationDescription'', ''EffortDate_Text'',
         ''EffortTime'', ''ObserverText'', ''Dusky*'', ''Total'', ''LatitudeDD'',
         ''LongitudeDD''],
       rename_columns
        [(''globalid_y'', ''occurrenceID''), (''SiteName'', ''location''), (''EffortTime'',
         ''eventTime''), (''EffortDate_Text'', ''eventDate''), (''LatitudeDD'',
         ''decimalLatitude''), (''LongitudeDD'', ''decimalLongitude''), (''ObserverText'',
         ''recordedBy'')]]"

definition dfDuskyNeckbandMB :: "dataframe \<Rightarrow> error + dataframe" where
  "dfDuskyNeckbandMB =
     steps
      [dfDuskyNeckband,
       select_columns
        [''globalid_y'', ''State'', ''EffortDate_Text'', ''EffortTime'', ''Prec'',
         ''LatitudeDD'', ''LongitudeDD'', ''ObserverText'', ''SiteName'',
         ''LocationDescription'', ''Location'', ''Dusky*'', ''Total''],
       rename_columns
        [(''globalid_y'', ''globalid''), (''EffortDate_Text'', ''Date''), (''LatitudeDD'',
         ''Latdd''), (''LongitudeDD'', ''Longdd''), (''ObserverText'', ''Obs''),
         (''DuskyCount'', ''Pres'')]]"

section \<open>The flock table, wide to long (cell 22)\<close>

text \<open>
  pyjanitor's \<open>pivot_longer(index=i, names_to=(n1, n2), names_sep=sep,
  sort_by_appearance=True)\<close>: every row gives one row per column other than the index,
  in the order of the columns, with the two pieces of the column's label under \<open>n1\<close> and
  \<open>n2\<close> and the cell under \<open>value\<close>.  A label that does not split in two raises
  \<open>ValueError\<close>.\<close>

definition split_label :: "string \<Rightarrow> string \<Rightarrow> error + string \<times> string \<times> string" where
  "split_label sep c =
     (case split_on sep [] c of
        [a, b] \<Rightarrow> Inr (c, a, b)
      | _ \<Rightarrow> Inl (ValueError c))"

definition melted_dtype :: "dataframe \<Rightarrow> string list \<Rightarrow> dtype" where
  "melted_dtype df cs =
     (case cs of
        [] \<Rightarrow> object
      | c # ds \<Rightarrow>
          if list_all (\<lambda>d. col_dtype df d = col_dtype df c) ds then col_dtype df c
          else if list_all (\<lambda>d. col_dtype df d = int64 \<or> col_dtype df d = float64) cs then float64
          else object)"

definition pivot_longer :: "string \<Rightarrow> string \<Rightarrow> string \<Rightarrow> string \<Rightarrow> dataframe \<Rightarrow> error + dataframe" where
  "pivot_longer i n1 n2 sep df =
     (case missing [i] df of
        k # _ \<Rightarrow> Inl (KeyError k)
      | [] \<Rightarrow>
          bindE (mapE (split_label sep) (filter (\<lambda>c. c \<noteq> i) (names df)))
            (\<lambda>parts.
               Inr \<lparr>header = [(i, col_dtype df i), (n1, object), (n2, object),
                               (''value'', melted_dtype df (map fst parts))],
                    rows = concat (map (\<lambda>r. map (\<lambda>(c, a, b).
                                        (\<lambda>_. NA)(i := r i, n1 := StrV a, n2 := StrV b,
                                                  ''value'' := r c)) parts)
                                     (rows df))\<rparr>))"

text \<open>\<open>filter_on("value != 0")\<close> is \<open>df.query("value != 0")\<close>: it keeps the rows on which the
  comparison is true, and a null differs from 0.\<close>

definition ne_zero :: "cell \<Rightarrow> bool" where
  "ne_zero x = (case x of IntV n \<Rightarrow> n \<noteq> 0 | FltV q \<Rightarrow> q \<noteq> 0 | _ \<Rightarrow> True)"

definition filter_on_value_ne_0 :: "dataframe \<Rightarrow> error + dataframe" where
  "filter_on_value_ne_0 df =
     (case missing [''value''] df of
        k # _ \<Rightarrow> Inl (UndefinedVariableError k)
      | [] \<Rightarrow> Inr \<lparr>header = header df, rows = filter (\<lambda>r. ne_zero (r ''value'')) (rows df)\<rparr>)"

text \<open>\<open>dropna()\<close>: the rows with a null under any label are dropped.\<close>

definition dropna :: "dataframe \<Rightarrow> dataframe" where
  "dropna df =
     \<lparr>header = header df,
      rows = filter (\<lambda>r. list_all (\<lambda>c. notnull (r c)) (names df)) (rows df)\<rparr>"

definition dfFlockPivotTemp :: "dataframe \<Rightarrow> error + dataframe" where
  "dfFlockPivotTemp =
     steps
      [select_columns
        [''globalid'', ''DuskyCount'', ''WuskyCount'', ''WesternCount'', ''TavLessCount'',
         ''TavCount'', ''LessCount'', ''AleutianCount'', ''CacklingCount'',
         ''UnknownCanadaCount'', ''UnknownCacklerCount'', ''WhiteFrontedCount'',
         ''SnowCount'', ''RossCount'', ''UnknownGooseCount'', ''TrumpeterCount'',
         ''TundraCount'', ''UnknownSwanCount''],
       pivot_longer ''globalid'' ''shortName'' ''dimension'' ''Count'',
       remove_columns [''dimension''],
       filter_on_value_ne_0,
       (\<lambda>df. Inr (dropna df))]"

section \<open>Taxonomy (cell 23)\<close>

text \<open>Four of the scientific names are written in the notebook with no-break spaces
  (U+00A0, one character of the Python string) between the words.\<close>

definition nbsp :: char where
  "nbsp = CHR 0xA0"

definition sciname_dict :: "(string \<times> string) list" where
  "sciname_dict =
     [(''Aleutian'', ''Branta'' @ [nbsp] @ ''hutchinsii'' @ [nbsp] @ ''leucopareia''),
      (''Cackling'', ''Branta'' @ [nbsp] @ ''hutchinsii'' @ [nbsp] @ ''minima''),
      (''Dusky'', ''Branta canadensis occidentalis''),
      (''Less'', ''Branta canadensis parvipes''),
      (''Tav'', ''Branta'' @ [nbsp] @ ''hutchinsii'' @ [nbsp] @ ''taverneri''),
      (''TavLess'', ''Branta hutchinsii taverneri x Branta canadensis parvipes''),
      (''Western'', ''Branta canadensis moffitti''),
      (''Wusky'', ''Branta canadensis moffitti x Branta canadensis occidentalis''),
      (''UnknownCackler'', ''Branta hutchinsii''),
      (''UnknownCanada'', ''Branta'' @ [nbsp] @ ''canadensis''),
      (''Ross'', ''Chen rossii''),
      (''Snow'', ''Chen caerulescens''),
      (''WhiteFronted'', ''Anser albifrons''),
      (''UnknownGoose'', ''Branta''),
      (''Trumpeter'', ''Cygnus buccinator''),
      (''UnknownSwan'', ''Cygnus columbianus''),
      (''Tundra'', ''Cygnus'')]"

definition FWSTaxonCode_dict :: "(string \<times> string) list" where
  "FWSTaxonCode_dict =
     [(''Aleutian'', ''604316''), (''Cackling'', ''604318''), (''Dusky'', ''77707''),
      (''Less'', ''76633''), (''Tav'', ''604320''), (''TavLess'', ''''), (''Western'',
      ''76632''), (''Wusky'', ''''), (''UnknownCackler'', ''604603''), (''UnknownCanada'',
      ''76625''), (''Ross'', ''77746''), (''Snow'', ''77742''), (''WhiteFronted'',
      ''77723''), (''UnknownGoose'', ''76624''), (''Trumpeter'', ''76618''),
      (''UnknownSwan'', ''76612''), (''Tundra'', ''76609'')]"

definition ITIS_dict :: "(string \<times> string) list" where
  "ITIS_dict =
     [(''Aleutian'', ''714726''), (''Cackling'', ''714727''), (''Dusky'', ''175006''),
      (''Less'', ''175004''), (''Tav'', ''714728''), (''TavLess'', ''''), (''Western'',
      ''175003''), (''Wusky'', ''''), (''UnknownCackler'', ''714068''), (''UnknownCanada'',
      ''174999''), (''Ross'', ''175041''), (''Snow'', ''175038''), (''WhiteFronted'',
      ''175020''), (''UnknownGoose'', ''174998''), (''Trumpeter'', ''174992''),
      (''UnknownSwan'', ''174987''), (''Tundra'', ''174984'')]"

text \<open>\<open>series.map(dict)\<close>: a cell that is no key of the dictionary becomes null.\<close>

definition map_dict :: "(string \<times> string) list \<Rightarrow> cell \<Rightarrow> cell" where
  "map_dict d x =
     (case x of
        StrV s \<Rightarrow> (case map_of d s of Some v \<Rightarrow> StrV v | None \<Rightarrow> NA)
      | _ \<Rightarrow> NA)"

definition map_column :: "string \<Rightarrow> string \<Rightarrow> (string \<times> string) list \<Rightarrow> dataframe \<Rightarrow> error + dataframe" where
  "map_column src dst d df =
     (case missing [src] df of
        k # _ \<Rightarrow> Inl (KeyError k)
      | [] \<Rightarrow> Inr (set_col dst object (\<lambda>r. map_dict d (r src)) df))"

text \<open>
  \<^verbatim>\<open>dfFlockPivot['scientificName'] = dfFlockPivot['shortName'].map(sciname_dict)\<close>
  \<^verbatim>\<open>dfFlockPivot['fwsTaxonCode'] = dfFlockPivot['shortName'].map(FWSTaxonCode_dict)\<close>
  \<^verbatim>\<open>dfFlockPivot['ITISTaxonCode'] = dfFlockPivot['shortName'].map(ITIS_dict)\<close>\<close>

definition taxonomy :: "dataframe \<Rightarrow> error + dataframe" where
  "taxonomy =
     steps
      [map_column ''shortName'' ''scientificName'' sciname_dict,
       map_column ''shortName'' ''fwsTaxonCode'' FWSTaxonCode_dict,
       map_column ''shortName'' ''ITISTaxonCode'' ITIS_dict]"

definition dfFlockPivot :: "dataframe \<Rightarrow> error + dataframe" where
  "dfFlockPivot = steps [dfFlockPivotTemp, taxonomy]"

section \<open>The long flock table (cells 24 and 25)\<close>

definition dfCleanMetadata :: "dataframe \<Rightarrow> error + dataframe" where
  "dfCleanMetadata =
     select_columns
      [''globalid_x'', ''globalid_y'', ''SiteName'', ''ObserverText'', ''EffortDate_Text'',
       ''EffortTime'', ''LocationDescription'', ''LocationOther'', ''EffortNotes'',
       ''LatitudeDD'', ''LongitudeDD'']"

definition dfFlockLong :: "dataframe \<Rightarrow> dataframe \<Rightarrow> error + dataframe" where
  "dfFlockLong joined sedfObservationPoint =
     bindE (dfCleanMetadata joined) (\<lambda>clean.
       bindE (dfFlockPivot sedfObservationPoint) (\<lambda>pivot.
         merge_inner clean pivot ''globalid_y'' ''globalid''))"

section \<open>Auxiliary definitions and example tables\<close>

text \<open>Three survey events: an observer entered as free text, one chosen from the list,
  and a site outside both state lists.\<close>

definition example_metadata :: dataframe where
  "example_metadata =
     \<lparr>header = [(''globalid'', object), (''SiteName'', object), (''Observer'', object),
                (''ObserverOther'', object)],
      rows = [(\<lambda>_. NA)(''globalid'' := StrV ''e1'', ''SiteName'' := StrV ''Willapa NWR'',
                 ''Observer'' := StrV ''Other'', ''ObserverOther'' := StrV ''J. Smith''),
              (\<lambda>_. NA)(''globalid'' := StrV ''e2'', ''SiteName'' := StrV ''Ankeny NWR'',
                 ''Observer'' := StrV ''K. So''),
              (\<lambda>_. NA)(''globalid'' := StrV ''e3'', ''SiteName'' := StrV ''Unknown Refuge'')]\<rparr>"

text \<open>The specification's reading of a count field: a null counts as 0.\<close>

definition count_or_zero :: "cell \<Rightarrow> int" where
  "count_or_zero x = (case x of IntV n \<Rightarrow> n | _ \<Rightarrow> 0)"

text \<open>Two observation points after the join: one at a site with prepopulated
  coordinates (the prepopulated longitude missing), one at a site without.\<close>

definition example_joined :: dataframe where
  "example_joined =
     \<lparr>header = [(''SiteName'', object), (''Latitude'', float64), (''Longitude'', float64),
                (''Latitude_Prepopulated'', float64), (''Longitude_Prepopulated'', float64)] @
               map (\<lambda>c. (c, float64)) col_list,
      rows = [(\<lambda>_. NA)(''SiteName'' := StrV ''Ridgefield NWR'',
                 ''Latitude'' := FltV (4580 / 100), ''Longitude'' := FltV (- 12275 / 100),
                 ''Latitude_Prepopulated'' := FltV (4581 / 100),
                 ''DuskyCount'' := IntV 5, ''WuskyCount'' := IntV 0, ''SnowCount'' := IntV 12),
              (\<lambda>_. NA)(''SiteName'' := StrV ''Ankeny NWR'',
                 ''Latitude'' := FltV (4478 / 100), ''Longitude'' := FltV (- 12308 / 100),
                 ''Latitude_Prepopulated'' := FltV (4479 / 100),
                 ''Longitude_Prepopulated'' := FltV (- 12309 / 100))]\<rparr>"

text \<open>One observation point for the first survey event, one whose parent is no event of
  the metadata table; the second and third event have no observation point.\<close>

definition example_points :: dataframe where
  "example_points =
     \<lparr>header = [(''globalid'', object), (''parentglobalid'', object), (''DuskyCount'', int64)],
      rows = [(\<lambda>_. NA)(''globalid'' := StrV ''p1'', ''parentglobalid'' := StrV ''e1'',
                 ''DuskyCount'' := IntV 5),
              (\<lambda>_. NA)(''globalid'' := StrV ''p2'', ''parentglobalid'' := StrV ''e9'',
                 ''DuskyCount'' := IntV 7)]\<rparr>"

text \<open>The species short names in the order of the count columns, and the row of the
  long table that an observation point \<open>r\<close> gives for the species \<open>s\<close>.\<close>

definition flock_shorts :: "string list" where
  "flock_shorts = [''Dusky'', ''Wusky'', ''Western'', ''TavLess'', ''Tav'', ''Less'', ''Aleutian'',
     ''Cackling'', ''UnknownCanada'', ''UnknownCackler'', ''WhiteFronted'', ''Snow'', ''Ross'',
     ''UnknownGoose'', ''Trumpeter'', ''Tundra'', ''UnknownSwan'']"

definition long_entry :: "row \<Rightarrow> string \<Rightarrow> row" where
  "long_entry r s =
     (\<lambda>_. NA)(''globalid'' := r ''globalid'', ''shortName'' := StrV s, ''value'' := r (s @ ''Count''))"

text \<open>One observation point with 5 dusky geese, a null count of cackling geese and 0 of
  every other kind.\<close>

definition example_counts :: dataframe where
  "example_counts =
     \<lparr>header = (''globalid'', object) # map (\<lambda>c. (c, float64)) col_list,
      rows = [(\<lambda>c. if c \<in> set col_list then IntV 0 else NA)
                (''globalid'' := StrV ''p1'', ''DuskyCount'' := IntV 5, ''CacklingCount'' := NA)]\<rparr>"

text \<open>Three rows of a long flock table: a subspecies, a hybrid (no taxon code), and a
  short name that is in no dictionary.\<close>

definition example_long :: dataframe where
  "example_long =
     \<lparr>header = [(''globalid'', object), (''shortName'', object), (''value'', float64)],
      rows = [(\<lambda>_. NA)(''globalid'' := StrV ''p1'', ''shortName'' := StrV ''Dusky'',
                 ''value'' := IntV 5),
              (\<lambda>_. NA)(''globalid'' := StrV ''p1'', ''shortName'' := StrV ''Wusky'',
                 ''value'' := IntV 2),
              (\<lambda>_. NA)(''globalid'' := StrV ''p2'', ''shortName'' := StrV ''Emperor'',
                 ''value'' := IntV 1)]\<rparr>"

text \<open>A table with a naive creation time (1 September 2021, 00:00, and a missing value)
  and an edit time that is already zone-aware; and a zone table that knows one
  fixed-offset zone, eight hours behind UTC.\<close>

definition example_stamps :: dataframe where
  "example_stamps =
     \<lparr>header = [(''globalid'', object), (''CreationDate'', datetime64),
                (''EditDate'', datetime64tz ''UTC'')],
      rows = [(\<lambda>_. NA)(''globalid'' := StrV ''e1'', ''CreationDate'' := TsV 1630454400000000000,
                 ''EditDate'' := TsV 1630458000000000000),
              (\<lambda>_. NA)(''globalid'' := StrV ''e2'')]\<rparr>"

definition example_tzdb :: tzdb where
  "example_tzdb z = (if z = ''Etc/GMT+8'' then Some (\<lambda>w. Some (w + 28800000000000)) else None)"

text \<open>A joined table with the 90 fields that cell 18 selects and two observation points
  of one survey.  The first has one dusky collar, entered in lower case.  The second has
  no collar: its 30 \<open>DuskyCollar\<close> fields are null and its \<open>NumberDuskyCollars\<close> is 0.
  Fields that no point fills are null throughout.\<close>

definition example_dtype :: "string \<Rightarrow> dtype" where
  "example_dtype c =
     (if c \<in> set (''NumberDuskyCollars'' # ''Total'' # ''TotalGeese'' # col_list) then int64
      else if c \<in> set [''Latitude'', ''Longitude'', ''Latitude_Prepopulated'',
                         ''Longitude_Prepopulated'', ''LatitudeDD'', ''LongitudeDD'']
      then float64 else object)"

definition example_neckband_rows :: "row list" where
  "example_neckband_rows =
             [(\<lambda>_. NA)(''globalid_x'' := StrV ''e1'', ''globalid_y'' := StrV ''p1'',
                 ''parentglobalid'' := StrV ''e1'', ''SiteName'' := StrV ''Ridgefield NWR'',
                 ''ObserverText'' := StrV ''K. So'', ''State'' := StrV ''WA'',
                 ''EffortDate_Text'' := StrV ''11/05/2021'', ''EffortTime'' := StrV ''10:15'',
                 ''LocationDescription'' := StrV ''River S Unit'',
                 ''LatitudeDD'' := FltV (4581 / 100), ''LongitudeDD'' := FltV (- 12275 / 100),
                 ''DuskyCount'' := IntV 3, ''NumberDuskyCollars'' := IntV 1,
                 ''DuskyCollar1'' := StrV ''a12'', ''Total'' := IntV 3),
              (\<lambda>_. NA)(''globalid_x'' := StrV ''e1'', ''globalid_y'' := StrV ''p2'',
                 ''parentglobalid'' := StrV ''e1'', ''SiteName'' := StrV ''Ridgefield NWR'',
                 ''ObserverText'' := StrV ''K. So'', ''State'' := StrV ''WA'',
                 ''EffortDate_Text'' := StrV ''11/05/2021'', ''EffortTime'' := StrV ''10:40'',
                 ''LocationDescription'' := StrV ''Bachelor Island'',
                 ''LatitudeDD'' := FltV (4583 / 100), ''LongitudeDD'' := FltV (- 12276 / 100),
                 ''DuskyCount'' := IntV 4, ''NumberDuskyCollars'' := IntV 0,
                 ''Total'' := IntV 4)]"

definition example_neckband_joined :: dataframe where
  "example_neckband_joined =
     \<lparr>header = map (\<lambda>c. (c, example_dtype c)) neckband_columns, rows = example_neckband_rows\<rparr>"

text \<open>The fields of the example that are not null on every row, and the example reduced
  to them.\<close>

definition example_kept :: "string list" where
  "example_kept = [''globalid_x'', ''SiteName'', ''ObserverText'', ''State'', ''EffortDate_Text'',
     ''DuskyCollar1'', ''DuskyCount'', ''EffortTime'', ''LocationDescription'',
     ''NumberDuskyCollars'', ''globalid_y'', ''parentglobalid'', ''LatitudeDD'', ''LongitudeDD'',
     ''Total'']"

definition example_nonnull :: dataframe where
  "example_nonnull =
     \<lparr>header = map (\<lambda>c. (c, example_dtype c)) example_kept,
      rows = map (restrict_row example_kept) example_neckband_rows\<rparr>"

section \<open>Basic facts about frames\<close>

lemma missing_Nil_iff: "missing cs df = [] \<longleftrightarrow> set cs \<subseteq> set (names df)"
  by (auto simp: missing_def filter_empty_conv)

lemma map_fst_retype: "map fst (map (\<lambda>(n, u). if n = c then (n, t) else (n, u)) h) = map fst h"
  by (induction h) auto

lemma map_fst_upd_header:
  "map fst (upd_header c t h) = (if c \<in> set (map fst h) then map fst h else map fst h @ [c])"
  using map_fst_retype [of c t h] by (simp add: upd_header_def del: map_map)

lemma names_set_col_list:
  "names (set_col c t v df) = (if c \<in> set (names df) then names df else names df @ [c])"
  by (simp add: names_def set_col_def map_fst_upd_header del: set_map)

lemma names_set_col: "set (names (set_col c t v df)) = insert c (set (names df))"
  by (auto simp: names_set_col_list)

lemma names_loc_set: "set (names (loc_set sel c t v df)) = insert c (set (names df))"
  by (auto simp: names_def loc_set_def)

lemma rows_set_col: "rows (set_col c t v df) = map (\<lambda>r. r(c := v r)) (rows df)"
  by (simp add: set_col_def)

lemma rows_loc_set:
  "rows (loc_set sel c t v df) =
     map (\<lambda>r. r(c := (if sel r then v r else if c \<in> set (names df) then r c else NA))) (rows df)"
  by (simp add: loc_set_def)

lemma loc_assign_ok:
  "set reads \<subseteq> set (names df) \<Longrightarrow> loc_assign reads sel c t v df = Inr (loc_set sel c t v df)"
  using missing_Nil_iff [of reads df] by (simp add: loc_assign_def)

lemma bindE_Inr: "bindE (Inr x) f = f x"
  by (simp add: bindE_def)

lemma bindE_Inl: "bindE (Inl e) f = Inl e"
  by (simp add: bindE_def)

lemma WA_OR_disjoint: "isin WA_filter x \<Longrightarrow> \<not> isin OR_filter x"
  by (auto simp: isin_def WA_filter_def OR_filter_def)

lemma loc_assign_step:
  assumes "set reads \<subseteq> set (names df)"
  shows "steps (loc_assign reads sel c t v # fs) df = steps fs (loc_set sel c t v df)"
  using assms by (simp add: loc_assign_ok bindE_Inr)

lemma names_loc_set_mono: "S \<subseteq> set (names df) \<Longrightarrow> S \<subseteq> set (names (loc_set sel c t v df))"
  by (auto simp: names_loc_set)

lemma nth_rows_loc_set:
  "i < length (rows df) \<Longrightarrow>
   (rows (loc_set sel c t v df) ! i) =
     (rows df ! i)(c := (if sel (rows df ! i) then v (rows df ! i)
                         else if c \<in> set (names df) then (rows df ! i) c else NA))"
  by (simp add: rows_loc_set)

lemma length_rows_loc_set: "length (rows (loc_set sel c t v df)) = length (rows df)"
  by (simp add: rows_loc_set)

lemma mapE_all_Inr: "(\<And>x. x \<in> set xs \<Longrightarrow> f x = Inr (g x)) \<Longrightarrow> mapE f xs = Inr (map g xs)"
  by (induction xs) simp_all

lemma count_or_zero_simps:
  "count_or_zero NA = 0" "count_or_zero (IntV n) = n"
  by (simp_all add: count_or_zero_def)

lemma sum_skipna_counts:
  "(\<And>x. x \<in> set xs \<Longrightarrow> x = NA \<or> (\<exists>n. x = IntV n)) \<Longrightarrow>
   sum_skipna xs = Inr (sum_list (map count_or_zero xs))"
proof (induction xs)
  case Nil
  show ?case by simp
next
  case (Cons x xs)
  have ih: "sum_skipna xs = Inr (sum_list (map count_or_zero xs))"
    using Cons by simp
  from Cons.prems [of x] consider "x = NA" | n where "x = IntV n" by auto
  then show ?case
    by cases (simp_all add: ih count_or_zero_simps bindE_Inr)
qed

lemma map_fst_merged_header:
  "map fst (merged_header l r lo ro) =
     map (suffixed (overlap l r lo ro) ''_x'') (names l) @
     map (suffixed (overlap l r lo ro) ''_y'') (map fst (right_kept (header r) lo ro))"
  by (simp add: merged_header_def names_def case_prod_unfold comp_def)

lemma right_kept_neq: "lo \<noteq> ro \<Longrightarrow> right_kept h lo ro = h"
  by (simp add: right_kept_def)

lemma merged_row_left:
  assumes d: "distinct (map fst (merged_header l r lo ro))" and c: "c \<in> set (names l)"
  shows "merged_row l r lo ro a b (suffixed (overlap l r lo ro) ''_x'' c) = a c"
proof -
  let ?kv = "map (\<lambda>c. (suffixed (overlap l r lo ro) ''_x'' c, a c)) (names l) @
             map (\<lambda>c. (suffixed (overlap l r lo ro) ''_y'' c, b c))
               (map fst (right_kept (header r) lo ro))"
  have "map fst ?kv = map fst (merged_header l r lo ro)"
    by (simp add: map_fst_merged_header comp_def)
  then have "distinct (map fst ?kv)" using d by simp
  moreover have "(suffixed (overlap l r lo ro) ''_x'' c, a c) \<in> set ?kv"
    using c by auto
  ultimately have "map_of ?kv (suffixed (overlap l r lo ro) ''_x'' c) = Some (a c)"
    by (rule map_of_is_SomeI)
  then show ?thesis by (simp add: merged_row_def)
qed

lemma merged_row_right:
  assumes d: "distinct (map fst (merged_header l r lo ro))"
      and c: "c \<in> set (map fst (right_kept (header r) lo ro))"
  shows "merged_row l r lo ro a b (suffixed (overlap l r lo ro) ''_y'' c) = b c"
proof -
  let ?kv = "map (\<lambda>c. (suffixed (overlap l r lo ro) ''_x'' c, a c)) (names l) @
             map (\<lambda>c. (suffixed (overlap l r lo ro) ''_y'' c, b c))
               (map fst (right_kept (header r) lo ro))"
  have "map fst ?kv = map fst (merged_header l r lo ro)"
    by (simp add: map_fst_merged_header comp_def)
  then have "distinct (map fst ?kv)" using d by simp
  moreover have "(suffixed (overlap l r lo ro) ''_y'' c, b c) \<in> set ?kv"
    using c by auto
  ultimately have "map_of ?kv (suffixed (overlap l r lo ro) ''_y'' c) = Some (b c)"
    by (rule map_of_is_SomeI)
  then show ?thesis by (simp add: merged_row_def)
qed

lemma merge_inner_Inr:
  assumes "merge_inner l r lo ro = Inr j"
  shows "lo \<in> set (names l)" and "ro \<in> set (names r)"
    and "distinct (map fst (merged_header l r lo ro))"
    and "header j = merged_header l r lo ro"
    and "rows j = concat (map (\<lambda>a. map (merged_row l r lo ro a)
                                      (filter (\<lambda>b. a lo = b ro) (rows r))) (rows l))"
  using assms
  by (auto simp: merge_inner_def missing_def split: list.splits if_splits)

lemma length_concat_map:
  "length (concat (map f xs)) = sum_list (map (\<lambda>x. length (f x)) xs)"
  by (induction xs) simp_all

lemma split_col_list:
  "mapE (split_label ''Count'') col_list = Inr (map (\<lambda>s. (s @ ''Count'', s, [])) flock_shorts)"
  by (simp add: col_list_def flock_shorts_def split_label_def)

lemma col_list_shorts: "col_list = map (\<lambda>s. s @ ''Count'') flock_shorts"
  by (simp add: col_list_def flock_shorts_def)

lemma unique_first_distinct: "distinct cs \<Longrightarrow> unique_first cs = cs"
  by (simp add: unique_first_def distinct_remdups_id)

lemma select_entry_present: "p \<in> set (names df) \<Longrightarrow> select_entry df p = Inr [p]"
  by (simp add: select_entry_def)

lemma select_columns_exact:
  assumes "distinct ps" and "set ps \<subseteq> set (names df)"
  shows "select_columns ps df =
     Inr \<lparr>header = map (\<lambda>c. (c, col_dtype df c)) ps, rows = map (restrict_row ps) (rows df)\<rparr>"
proof -
  have "mapE (select_entry df) ps = Inr (map (\<lambda>p. [p]) ps)"
    using assms(2) by (intro mapE_all_Inr select_entry_present) auto
  moreover have "concat (map (\<lambda>p. [p]) ps) = ps"
    by (induction ps) simp_all
  ultimately show ?thesis
    using assms(1) by (simp add: select_columns_def bindE_Inr unique_first_distinct)
qed

lemma dfFlockPivotTemp_alt:
  "dfFlockPivotTemp =
     steps [select_columns (''globalid'' # col_list),
            pivot_longer ''globalid'' ''shortName'' ''dimension'' ''Count'',
            remove_columns [''dimension''],
            filter_on_value_ne_0,
            (\<lambda>df. Inr (dropna df))]"
  by (simp add: dfFlockPivotTemp_def col_list_def)

lemma distinct_flock_columns: "distinct (''globalid'' # col_list)"
  by (simp add: col_list_def)

lemma filter_index_col_list: "filter (\<lambda>c. c \<noteq> ''globalid'') (''globalid'' # col_list) = col_list"
  by (simp add: col_list_def)

lemma dfFlockPivotTemp_rows:
  assumes cols: "set (''globalid'' # col_list) \<subseteq> set (names op)"
  shows "\<exists>long. dfFlockPivotTemp op = Inr long \<and>
           names long = [''globalid'', ''shortName'', ''value''] \<and>
           rows long =
             filter (\<lambda>e. list_all (\<lambda>c. notnull (e c)) [''globalid'', ''shortName'', ''value''])
               (filter (\<lambda>e. ne_zero (e ''value''))
                  (concat (map (\<lambda>r. map (long_entry r) flock_shorts) (rows op))))"
proof -
  let ?ps = "''globalid'' # col_list"
  define d1 where "d1 = \<lparr>header = map (\<lambda>c. (c, col_dtype op c)) ?ps,
                           rows = map (restrict_row ?ps) (rows op)\<rparr>"
  define parts where "parts = map (\<lambda>s. (s @ ''Count'', s, [] :: string)) flock_shorts"
  define d2 where "d2 = \<lparr>header = [(''globalid'', col_dtype d1 ''globalid''), (''shortName'', object),
                                     (''dimension'', object),
                                     (''value'', melted_dtype d1 (map fst parts))],
                           rows = concat (map (\<lambda>r. map (\<lambda>(c, a, b).
                                        (\<lambda>_. NA)(''globalid'' := r ''globalid'', ''shortName'' := StrV a,
                                                  ''dimension'' := StrV b, ''value'' := r c)) parts)
                                     (rows d1))\<rparr>"
  define d3 where "d3 = \<lparr>header = filter (\<lambda>(c, t). c \<notin> set [''dimension'']) (header d2),
                   rows = map (\<lambda>r c. if c \<in> set [''dimension''] then NA else r c) (rows d2)\<rparr>"
  define d4 where "d4 = \<lparr>header = header d3,
                           rows = filter (\<lambda>r. ne_zero (r ''value'')) (rows d3)\<rparr>"
  have a1: "select_columns ?ps op = Inr d1"
    unfolding d1_def by (rule select_columns_exact [OF distinct_flock_columns cols])
  have n1: "names d1 = ?ps"
    by (simp add: d1_def names_def comp_def)
  have a2: "pivot_longer ''globalid'' ''shortName'' ''dimension'' ''Count'' d1 = Inr d2"
    unfolding pivot_longer_def n1 missing_def filter_index_col_list split_col_list
    by (simp add: bindE_Inr d2_def parts_def)
  have n2: "names d2 = [''globalid'', ''shortName'', ''dimension'', ''value'']"
    by (simp add: d2_def names_def)
  have a3: "remove_columns [''dimension''] d2 = Inr d3"
    unfolding remove_columns_def missing_def n2 by (simp add: d3_def)
  have n3: "names d3 = [''globalid'', ''shortName'', ''value'']"
    by (simp add: d3_def d2_def names_def)
  have a4: "filter_on_value_ne_0 d3 = Inr d4"
    unfolding filter_on_value_ne_0_def missing_def n3 by (simp add: d4_def)
  have n4: "names d4 = [''globalid'', ''shortName'', ''value'']"
    using n3 by (simp add: d4_def names_def)
  have run: "dfFlockPivotTemp op = Inr (dropna d4)"
    unfolding dfFlockPivotTemp_alt
    by (simp add: a1 a2 a3 a4 bindE_Inr)
  have entry: "(\<lambda>c. if c = ''dimension'' then NA
                     else ((\<lambda>_. NA)(''globalid'' := restrict_row ?ps r ''globalid'',
                             ''shortName'' := StrV s, ''dimension'' := StrV [],
                             ''value'' := restrict_row ?ps r (s @ ''Count''))) c) = long_entry r s"
    if "s \<in> set flock_shorts" for r s
  proof -
    have "s @ ''Count'' \<in> set col_list"
      using that by (simp add: col_list_shorts)
    then show ?thesis
      by (auto simp: long_entry_def restrict_row_def fun_eq_iff)
  qed
  have r3: "rows d3 = concat (map (\<lambda>r. map (long_entry r) flock_shorts) (rows op))"
    unfolding d3_def d2_def d1_def parts_def
    apply (simp add: map_concat comp_def)
    apply (rule arg_cong [where f = concat])
    apply (rule map_cong [OF refl])
    apply (rule map_cong [OF refl])
    apply (erule entry)
    done
  have "rows (dropna d4) =
             filter (\<lambda>e. list_all (\<lambda>c. notnull (e c)) [''globalid'', ''shortName'', ''value''])
               (filter (\<lambda>e. ne_zero (e ''value''))
                  (concat (map (\<lambda>r. map (long_entry r) flock_shorts) (rows op))))"
    unfolding dropna_def n4 by (simp add: d4_def r3)
  moreover have "names (dropna d4) = [''globalid'', ''shortName'', ''value'']"
    using n4 by (simp add: dropna_def names_def)
  ultimately show ?thesis using run by blast
qed

lemma ne_zero_iff: "ne_zero x \<longleftrightarrow> x \<noteq> IntV 0 \<and> x \<noteq> FltV 0"
  by (cases x) (simp_all add: ne_zero_def)

lemma upd_header_typed:
  "c \<in> set (map fst (upd_header c t h)) \<and> (\<forall>u. (c, u) \<in> set (upd_header c t h) \<longrightarrow> u = t)"
proof
  show "c \<in> set (map fst (upd_header c t h))"
    by (simp add: map_fst_upd_header del: set_map)
  show "\<forall>u. (c, u) \<in> set (upd_header c t h) \<longrightarrow> u = t"
    by (force simp: upd_header_def split: if_splits)
qed

lemma upd_header_keeps_typed:
  assumes "c \<in> set (map fst h) \<and> (\<forall>u. (c, u) \<in> set h \<longrightarrow> u = t)"
  shows "c \<in> set (map fst (upd_header c' t h)) \<and> (\<forall>u. (c, u) \<in> set (upd_header c' t h) \<longrightarrow> u = t)"
proof
  show "c \<in> set (map fst (upd_header c' t h))"
    using assms by (simp add: map_fst_upd_header del: set_map)
  show "\<forall>u. (c, u) \<in> set (upd_header c' t h) \<longrightarrow> u = t"
    using assms by (force simp: upd_header_def split: if_splits)
qed

lemma upd_header_id:
  assumes "c \<in> set (map fst h) \<and> (\<forall>u. (c, u) \<in> set h \<longrightarrow> u = t)"
  shows "upd_header c t h = h"
proof -
  have "map (\<lambda>(n, u). if n = c then (n, t) else (n, u)) h = h"
    using assms by (intro map_idI) auto
  then show ?thesis using assms by (simp add: upd_header_def)
qed

lemma map_column_ok:
  "src \<in> set (names df) \<Longrightarrow>
   map_column src dst d df = Inr (set_col dst object (\<lambda>r. map_dict d (r src)) df)"
  by (simp add: map_column_def missing_def)

lemma map_column_missing:
  "src \<notin> set (names df) \<Longrightarrow> map_column src dst d df = Inl (KeyError src)"
  by (simp add: map_column_def missing_def)

lemma taxonomy_run:
  assumes "''shortName'' \<in> set (names df)"
  shows "taxonomy df =
     Inr \<lparr>header = upd_header ''ITISTaxonCode'' object
                     (upd_header ''fwsTaxonCode'' object
                       (upd_header ''scientificName'' object (header df))),
          rows = map (\<lambda>r. r(''scientificName'' := map_dict sciname_dict (r ''shortName''),
                            ''fwsTaxonCode'' := map_dict FWSTaxonCode_dict (r ''shortName''),
                            ''ITISTaxonCode'' := map_dict ITIS_dict (r ''shortName''))) (rows df)\<rparr>"
proof -
  let ?d1 = "set_col ''scientificName'' object (\<lambda>r. map_dict sciname_dict (r ''shortName'')) df"
  let ?d2 = "set_col ''fwsTaxonCode'' object (\<lambda>r. map_dict FWSTaxonCode_dict (r ''shortName'')) ?d1"
  have n1: "''shortName'' \<in> set (names ?d1)"
    using assms by (simp add: names_set_col)
  have n2: "''shortName'' \<in> set (names ?d2)"
    using n1 by (simp add: names_set_col)
  show ?thesis
    unfolding taxonomy_def
    by (simp add: map_column_ok [OF assms] map_column_ok [OF n1] map_column_ok [OF n2] bindE_Inr)
       (simp add: set_col_def)
qed

lemma mapE_Inr_nth:
  "mapE f xs = Inr ys \<Longrightarrow> length ys = length xs \<and> (\<forall>i < length xs. f (xs ! i) = Inr (ys ! i))"
proof (induction xs arbitrary: ys)
  case Nil
  then show ?case by simp
next
  case (Cons x xs)
  from Cons.prems obtain y ys' where fx: "f x = Inr y" and rest: "mapE f xs = Inr ys'"
    and ys: "ys = y # ys'"
    by (auto split: sum.splits)
  from Cons.IH [OF rest] have "length ys' = length xs"
    and "\<forall>i < length xs. f (xs ! i) = Inr (ys' ! i)" by simp_all
  then show ?case using fx ys by (auto simp: nth_Cons split: nat.splits)
qed

lemma map_of_upd_header_same: "map_of (upd_header c t h) c = Some t"
proof (cases "c \<in> set (map fst h)")
  case True
  have "c \<in> set (map fst h) \<Longrightarrow>
        map_of (map (\<lambda>(n, u). if n = c then (n, t) else (n, u)) h) c = Some t"
    by (induction h) auto
  with True show ?thesis by (simp add: upd_header_def)
next
  case False
  then have "map_of h c = None" by (simp add: map_of_eq_None_iff)
  with False show ?thesis by (simp add: upd_header_def map_add_def)
qed

lemma map_of_upd_header_other: "c' \<noteq> c \<Longrightarrow> map_of (upd_header c t h) c' = map_of h c'"
proof -
  assume ne: "c' \<noteq> c"
  have "map_of (map (\<lambda>(n, u). if n = c then (n, t) else (n, u)) h) c' = map_of h c'"
    using ne by (induction h) auto
  then show ?thesis using ne by (auto simp: upd_header_def map_add_def split: option.splits)
qed

lemma col_dtype_set_series_same: "col_dtype (set_series c s df) c = fst s"
  by (simp add: col_dtype_def set_series_def map_of_upd_header_same)

lemma col_dtype_set_series_other: "c' \<noteq> c \<Longrightarrow> col_dtype (set_series c s df) c' = col_dtype df c'"
  by (simp add: col_dtype_def set_series_def map_of_upd_header_other)

lemma names_set_series:
  "names (set_series c s df) = (if c \<in> set (names df) then names df else names df @ [c])"
  by (simp add: names_def set_series_def map_fst_upd_header del: set_map)

lemma rows_set_series:
  "length (snd s) = length (rows df) \<Longrightarrow>
   length (rows (set_series c s df)) = length (rows df) \<and>
   (\<forall>i < length (rows df). rows (set_series c s df) ! i = (rows df ! i)(c := snd s ! i))"
  by (simp add: set_series_def)

lemma series_set_series_same:
  "length (snd s) = length (rows df) \<Longrightarrow> series (set_series c s df) c = s"
proof -
  assume len: "length (snd s) = length (rows df)"
  have "map (\<lambda>r. r c) (rows (set_series c s df)) = snd s"
    using len by (auto simp: set_series_def intro!: nth_equalityI)
  then show ?thesis
    by (simp add: series_def col_dtype_set_series_same)
qed

lemma series_set_series_other:
  assumes "c' \<noteq> c" and len: "length (snd s) = length (rows df)"
  shows "series (set_series c s df) c' = series df c'"
proof -
  have "map (\<lambda>r. r c') (rows (set_series c s df)) = map (\<lambda>r. r c') (rows df)"
    using assms by (auto simp: set_series_def intro!: nth_equalityI)
  then show ?thesis
    using assms(1) by (simp add: series_def col_dtype_set_series_other)
qed

lemma length_rows_set_series:
  "length (snd s) = length (rows df) \<Longrightarrow> length (rows (set_series c s df)) = length (rows df)"
  by (simp add: set_series_def)

lemma dt_tz_localize_Inr:
  assumes "dt_tz_localize db z s = Inr s'"
  shows "fst s = datetime64" and "fst s' = datetime64tz z"
    and "\<exists>f. zone_info db z = Some f \<and> mapE (localize_cell f) (snd s) = Inr (snd s')"
  using assms
  by (auto simp: dt_tz_localize_def bindE_def split: dtype.splits option.splits sum.splits)

lemma dt_tz_convert_Inr:
  assumes "dt_tz_convert db z s = Inr s'"
  shows "s' = (datetime64tz z, snd s)" and "zone_info db z \<noteq> None"
  using assms
  by (auto simp: dt_tz_convert_def split: dtype.splits option.splits)

lemma change_timezone_None:
  assumes "change_timezone_of_field db df src sfx stz ntz = (None, df')"
  shows "\<exists>f xs. src \<in> set (names df) \<and> col_dtype df src = datetime64 \<and>
           zone_info db stz = Some f \<and> zone_info db ntz \<noteq> None \<and>
           mapE (localize_cell f) (map (\<lambda>r. r src) (rows df)) = Inr xs \<and>
           df' = set_series (src @ sfx) (datetime64tz ntz, xs)
                   (set_series src (datetime64tz stz, xs) df)"
proof -
  from assms have m: "missing [src] df = []"
    by (auto simp: change_timezone_of_field_def split: list.splits)
  then have src: "src \<in> set (names df)" by (simp add: missing_Nil_iff)
  from assms m obtain s1 where l: "dt_tz_localize db stz (series df src) = Inr s1"
    by (auto simp: change_timezone_of_field_def split: sum.splits)
  from dt_tz_localize_Inr [OF l] obtain f where dt: "col_dtype df src = datetime64"
    and t1: "fst s1 = datetime64tz stz" and zi: "zone_info db stz = Some f"
    and xs: "mapE (localize_cell f) (map (\<lambda>r. r src) (rows df)) = Inr (snd s1)"
    by (auto simp: series_def)
  have s1: "s1 = (datetime64tz stz, snd s1)" using t1 by (cases s1) simp
  have len: "length (snd s1) = length (rows df)"
    using mapE_Inr_nth [OF xs] by simp
  from assms m l obtain s2 where
    c: "dt_tz_convert db ntz (series (set_series src s1 df) src) = Inr s2" and
    d: "df' = set_series (src @ sfx) s2 (set_series src s1 df)"
    by (auto simp: change_timezone_of_field_def Let_def split: sum.splits)
  from dt_tz_convert_Inr [OF c] have "s2 = (datetime64tz ntz, snd s1)"
    and "zone_info db ntz \<noteq> None"
    by (simp_all add: series_set_series_same [OF len])
  with src dt zi xs d s1 show ?thesis by metis
qed

lemma localize_UTC:
  "mapE (localize_cell (\<lambda>w. Some w)) xs =
     Inr (map (\<lambda>x. case x of TsV w \<Rightarrow> TsV w | _ \<Rightarrow> NA) xs)"
  by (rule mapE_all_Inr) (simp add: localize_cell_def split: cell.splits)

lemma zone_info_UTC: "zone_info db ''UTC'' = Some (\<lambda>w. Some w)"
  by (simp add: zone_info_def)

lemma change_timezone_from_UTC:
  assumes src: "src \<in> set (names df)" and dt: "col_dtype df src = datetime64"
      and nz: "zone_info db ntz \<noteq> None"
  shows "fst (change_timezone_of_field db df src sfx ''UTC'' ntz) = None"
proof -
  define xs where "xs = map (\<lambda>x. case x of TsV w \<Rightarrow> TsV w | _ \<Rightarrow> NA) (map (\<lambda>r. r src) (rows df))"
  define df1 where "df1 = set_series src (datetime64tz ''UTC'', xs) df"
  have m: "missing [src] df = []" using src by (simp add: missing_Nil_iff)
  have l: "dt_tz_localize db ''UTC'' (series df src) = Inr (datetime64tz ''UTC'', xs)"
    using dt unfolding xs_def
    by (simp add: dt_tz_localize_def series_def zone_info_UTC localize_UTC bindE_Inr
          del: map_map)
  have "length (snd (datetime64tz ''UTC'', xs)) = length (rows df)"
    by (simp add: xs_def)
  then have "series df1 src = (datetime64tz ''UTC'', xs)"
    unfolding df1_def by (rule series_set_series_same)
  then have c: "dt_tz_convert db ntz (series df1 src) = Inr (datetime64tz ntz, xs)"
    using nz by (auto simp: dt_tz_convert_def)
  have "change_timezone_of_field db df src sfx ''UTC'' ntz =
          (None, set_series (src @ sfx) (datetime64tz ntz, xs) df1)"
    unfolding change_timezone_of_field_def m l
    by (simp add: Let_def c flip: df1_def)
  then show ?thesis by simp
qed

lemma change_timezone_example:
  "change_timezone_of_field example_tzdb example_stamps ''CreationDate'' ''_Pacific'' ''UTC''
      ''Etc/GMT+8'' =
     (None,
      set_series ''CreationDate_Pacific'' (datetime64tz ''Etc/GMT+8'', [TsV 1630454400000000000, NA])
        (set_series ''CreationDate'' (datetime64tz ''UTC'', [TsV 1630454400000000000, NA])
           example_stamps))"
proof -
  have m: "missing [''CreationDate''] example_stamps = []"
    by (simp add: missing_def names_def example_stamps_def)
  have s: "series example_stamps ''CreationDate'' = (datetime64, [TsV 1630454400000000000, NA])"
    by (simp add: series_def col_dtype_def example_stamps_def)
  have l: "dt_tz_localize example_tzdb ''UTC'' (datetime64, [TsV 1630454400000000000, NA]) =
             Inr (datetime64tz ''UTC'', [TsV 1630454400000000000, NA])"
    by (simp add: dt_tz_localize_def zone_info_def localize_cell_def bindE_def)
  have "length (snd (datetime64tz ''UTC'', [TsV 1630454400000000000, NA])) =
          length (rows example_stamps)"
    by (simp add: example_stamps_def)
  note s1 = series_set_series_same [OF this, of "''CreationDate''"]
  have c: "dt_tz_convert example_tzdb ''Etc/GMT+8'' (datetime64tz ''UTC'', [TsV 1630454400000000000, NA]) =
             Inr (datetime64tz ''Etc/GMT+8'', [TsV 1630454400000000000, NA])"
    by (simp add: dt_tz_convert_def zone_info_def example_tzdb_def)
  show ?thesis
    unfolding change_timezone_of_field_def m s l Let_def
    by (simp add: s1 c)
qed

lemma change_timezone_example_west:
  "change_timezone_of_field example_tzdb example_stamps ''CreationDate'' ''_UTC'' ''Etc/GMT+8''
      ''UTC'' =
     (None,
      set_series ''CreationDate_UTC'' (datetime64tz ''UTC'', [TsV 1630483200000000000, NA])
        (set_series ''CreationDate'' (datetime64tz ''Etc/GMT+8'', [TsV 1630483200000000000, NA])
           example_stamps))"
proof -
  have m: "missing [''CreationDate''] example_stamps = []"
    by (simp add: missing_def names_def example_stamps_def)
  have s: "series example_stamps ''CreationDate'' = (datetime64, [TsV 1630454400000000000, NA])"
    by (simp add: series_def col_dtype_def example_stamps_def)
  have l: "dt_tz_localize example_tzdb ''Etc/GMT+8'' (datetime64, [TsV 1630454400000000000, NA]) =
             Inr (datetime64tz ''Etc/GMT+8'', [TsV 1630483200000000000, NA])"
    by (simp add: dt_tz_localize_def zone_info_def example_tzdb_def localize_cell_def bindE_def)
  have "length (snd (datetime64tz ''Etc/GMT+8'', [TsV 1630483200000000000, NA])) =
          length (rows example_stamps)"
    by (simp add: example_stamps_def)
  note s1 = series_set_series_same [OF this, of "''CreationDate''"]
  have c: "dt_tz_convert example_tzdb ''UTC'' (datetime64tz ''Etc/GMT+8'', [TsV 1630483200000000000, NA]) =
             Inr (datetime64tz ''UTC'', [TsV 1630483200000000000, NA])"
    by (simp add: dt_tz_convert_def zone_info_def)
  show ?thesis
    unfolding change_timezone_of_field_def m s l Let_def
    by (simp add: s1 c)
qed

lemma loc_assign_scalar_ok:
  "set reads \<subseteq> set (names df) \<Longrightarrow> rows df \<noteq> [] \<or> c \<in> set (names df) \<Longrightarrow>
   loc_assign_scalar reads sel c t x df = Inr (loc_set sel c t (\<lambda>r. x) df)"
  using missing_Nil_iff [of reads df] by (auto simp: loc_assign_scalar_def)

lemma wrap64_id: "- (2 ^ 63) \<le> n \<Longrightarrow> n < 2 ^ 63 \<Longrightarrow> wrap64 n = n"
  by (simp add: wrap64_def)

lemma magnitude_simps: "magnitude NA = 0" "magnitude (IntV n) = \<bar>n\<bar>"
  by (simp_all add: magnitude_def)

lemma sum_magnitude_bound:
  assumes "0 \<le> b"
      and "\<And>x. x \<in> set xs \<Longrightarrow> x = NA \<or> (\<exists>n. x = IntV n \<and> \<bar>n\<bar> \<le> b)"
  shows "\<bar>sum_list (map count_or_zero xs)\<bar> \<le> sum_list (map magnitude xs) \<and>
         sum_list (map magnitude xs) \<le> int (length xs) * b"
  using assms(2)
proof (induction xs)
  case Nil
  show ?case by simp
next
  case (Cons x xs)
  have ih: "\<bar>sum_list (map count_or_zero xs)\<bar> \<le> sum_list (map magnitude xs)"
    "sum_list (map magnitude xs) \<le> int (length xs) * b"
    using Cons by simp_all
  from Cons.prems [of x] consider "x = NA" | n where "x = IntV n" "\<bar>n\<bar> \<le> b"
    by auto
  then show ?case
  proof cases
    case 1
    then show ?thesis
      using ih assms(1) by (simp add: count_or_zero_simps magnitude_simps algebra_simps)
  next
    case 2
    then show ?thesis
      using ih by (simp add: count_or_zero_simps magnitude_simps algebra_simps)
  qed
qed

lemma row_sum_counts:
  assumes ts: "list_all (\<lambda>t. t = int64 \<or> t = float64) ts"
      and xs: "\<And>x. x \<in> set xs \<Longrightarrow> x = NA \<or> (\<exists>n. x = IntV n \<and> \<bar>n\<bar> \<le> 2 ^ 48)"
      and len: "length xs = 17"
  shows "row_sum ts xs = Inr (IntV (sum_list (map count_or_zero xs)))"
proof -
  have s: "sum_skipna xs = Inr (sum_list (map count_or_zero xs))"
    using xs by (intro sum_skipna_counts) blast
  have "\<bar>sum_list (map count_or_zero xs)\<bar> \<le> sum_list (map magnitude xs)"
    and "sum_list (map magnitude xs) \<le> int (length xs) * 2 ^ 48"
    using sum_magnitude_bound [of "2 ^ 48" xs] xs by simp_all
  then have b: "sum_list (map magnitude xs) \<le> 2 ^ 53"
    and w: "- (2 ^ 63) \<le> sum_list (map count_or_zero xs)" "sum_list (map count_or_zero xs) < 2 ^ 63"
    using len by simp_all
  show ?thesis
    using ts b by (simp add: row_sum_def s bindE_Inr wrap64_id [OF w])
qed

lemma merge_inner_pairs:
  assumes j: "merge_inner l r lo ro = Inr j" and ne: "lo \<noteq> ro"
  shows "(\<forall>x \<in> set (rows j).
            x (suffixed (overlap l r lo ro) ''_x'' lo) = x (suffixed (overlap l r lo ro) ''_y'' ro) \<and>
            (\<exists>a \<in> set (rows l). \<exists>b \<in> set (rows r). a lo = b ro \<and> x = merged_row l r lo ro a b)) \<and>
         length (rows j) =
           sum_list (map (\<lambda>a. length (filter (\<lambda>b. a lo = b ro) (rows r))) (rows l)) \<and>
         (\<forall>a b. (\<forall>b' \<in> set (rows r). a lo \<noteq> b' ro) \<longrightarrow> merged_row l r lo ro a b \<notin> set (rows j)) \<and>
         (\<forall>a b. (\<forall>a' \<in> set (rows l). a' lo \<noteq> b ro) \<longrightarrow> merged_row l r lo ro a b \<notin> set (rows j))"
proof -
  note f = merge_inner_Inr [OF j]
  have rk: "ro \<in> set (map fst (right_kept (header r) lo ro))"
    using f(2) ne by (simp add: right_kept_neq names_def)
  have left: "merged_row l r lo ro a b (suffixed (overlap l r lo ro) ''_x'' lo) = a lo" for a b
    by (rule merged_row_left [OF f(3) f(1)])
  have right: "merged_row l r lo ro a b (suffixed (overlap l r lo ro) ''_y'' ro) = b ro" for a b
    by (rule merged_row_right [OF f(3) rk])
  have src: "\<exists>a \<in> set (rows l). \<exists>b \<in> set (rows r). a lo = b ro \<and> x = merged_row l r lo ro a b"
    if "x \<in> set (rows j)" for x
    using that unfolding f(5) by auto
  have keys: "x (suffixed (overlap l r lo ro) ''_x'' lo) = x (suffixed (overlap l r lo ro) ''_y'' ro)"
    if "x \<in> set (rows j)" for x
  proof -
    from src [OF that] obtain a b where "a lo = b ro" and "x = merged_row l r lo ro a b"
      by blast
    then show ?thesis by (simp add: left right)
  qed
  have len: "length (rows j) =
      sum_list (map (\<lambda>a. length (filter (\<lambda>b. a lo = b ro) (rows r))) (rows l))"
    unfolding f(5) by (simp add: length_concat_map)
  have noleft: "merged_row l r lo ro a b \<notin> set (rows j)"
    if "\<forall>b' \<in> set (rows r). a lo \<noteq> b' ro" for a b
  proof
    assume "merged_row l r lo ro a b \<in> set (rows j)"
    from src [OF this] obtain a' b' where "b' \<in> set (rows r)" and "a' lo = b' ro"
      and "merged_row l r lo ro a b = merged_row l r lo ro a' b'"
      by blast
    from this(3) have "a lo = a' lo"
      using left [of a b] left [of a' b'] by simp
    with \<open>a' lo = b' ro\<close> \<open>b' \<in> set (rows r)\<close> that show False by auto
  qed
  have noright: "merged_row l r lo ro a b \<notin> set (rows j)"
    if "\<forall>a' \<in> set (rows l). a' lo \<noteq> b ro" for a b
  proof
    assume "merged_row l r lo ro a b \<in> set (rows j)"
    from src [OF this] obtain a' b' where "a' \<in> set (rows l)" and "a' lo = b' ro"
      and "merged_row l r lo ro a b = merged_row l r lo ro a' b'"
      by blast
    from this(3) have "b ro = b' ro"
      using right [of a b] right [of a' b'] by simp
    with \<open>a' lo = b' ro\<close> \<open>a' \<in> set (rows l)\<close> that show False by auto
  qed
  show ?thesis
    using keys src len noleft noright by blast
qed

lemma merge_inner_result:
  assumes "merge_inner l r lo ro = Inr j" and "lo \<noteq> ro"
  shows "inner_join_result l r lo ro (suffixed (overlap l r lo ro) ''_x'' lo)
           (suffixed (overlap l r lo ro) ''_y'' ro) j"
  unfolding inner_join_result_def by (rule merge_inner_pairs [OF assms])

lemma merge_inner_ok:
  assumes "lo \<in> set (names l)" and "ro \<in> set (names r)"
    and "distinct (map fst (merged_header l r lo ro))"
  shows "merge_inner l r lo ro =
     Inr \<lparr>header = merged_header l r lo ro,
          rows = concat (map (\<lambda>a. map (merged_row l r lo ro a)
                                      (filter (\<lambda>b. a lo = b ro) (rows r))) (rows l))\<rparr>"
  using assms by (simp add: merge_inner_def missing_def)

text \<open>Selections by plain labels (no pattern).\<close>

lemma select_entry_plain:
  assumes "select_entry df p = Inr cs" and "\<not> (p \<noteq> [] \<and> last p = CHR ''*'')"
  shows "cs = [p] \<and> p \<in> set (names df)"
proof (cases "p \<in> set (names df)")
  case True
  with assms(1) show ?thesis by (simp add: select_entry_def)
next
  case False
  then have "filter (fnmatch p) (names df) = []"
    using assms(2) by (auto simp: fnmatch_def filter_empty_conv)
  with False assms(1) show ?thesis by (simp add: select_entry_def)
qed

lemma mapE_select_plain:
  assumes "mapE (select_entry df) ps = Inr css"
      and "\<forall>p \<in> set ps. \<not> (p \<noteq> [] \<and> last p = CHR ''*'')"
  shows "concat css = ps \<and> set ps \<subseteq> set (names df)"
  using assms
proof (induction ps arbitrary: css)
  case Nil
  then show ?case by simp
next
  case (Cons p ps)
  from Cons.prems(1) obtain cs css' where a: "select_entry df p = Inr cs"
    and b: "mapE (select_entry df) ps = Inr css'" and c: "css = cs # css'"
    by (auto split: sum.splits)
  from select_entry_plain [OF a] Cons.prems(2) have "cs = [p]" "p \<in> set (names df)" by simp_all
  moreover from Cons.IH [OF b] Cons.prems(2) have "concat css' = ps" "set ps \<subseteq> set (names df)"
    by simp_all
  ultimately show ?case using c by simp
qed

lemma select_columns_plain:
  assumes "select_columns ps df = Inr d"
      and "\<forall>p \<in> set ps. \<not> (p \<noteq> [] \<and> last p = CHR ''*'')" and "distinct ps"
  shows "set ps \<subseteq> set (names df)" and "names d = ps" and "rows d = map (restrict_row ps) (rows df)"
proof -
  from assms(1) obtain css where m: "mapE (select_entry df) ps = Inr css"
    by (auto simp: select_columns_def bindE_def split: sum.splits)
  from mapE_select_plain [OF m assms(2)] have c: "concat css = ps" and s: "set ps \<subseteq> set (names df)"
    by simp_all
  show "set ps \<subseteq> set (names df)" by (rule s)
  from assms(1) have "d = \<lparr>header = map (\<lambda>c. (c, col_dtype df c)) ps,
                            rows = map (restrict_row ps) (rows df)\<rparr>"
    by (simp add: select_columns_def m bindE_Inr c unique_first_distinct [OF assms(3)])
  then show "names d = ps" and "rows d = map (restrict_row ps) (rows df)"
    by (simp_all add: names_def comp_def)
qed

lemma dfCleanMetadata_Inr:
  assumes "dfCleanMetadata joined = Inr clean"
  shows "names clean = [''globalid_x'', ''globalid_y'', ''SiteName'', ''ObserverText'',
           ''EffortDate_Text'', ''EffortTime'', ''LocationDescription'', ''LocationOther'',
           ''EffortNotes'', ''LatitudeDD'', ''LongitudeDD'']"
    and "rows clean = map (restrict_row [''globalid_x'', ''globalid_y'', ''SiteName'', ''ObserverText'',
           ''EffortDate_Text'', ''EffortTime'', ''LocationDescription'', ''LocationOther'',
           ''EffortNotes'', ''LatitudeDD'', ''LongitudeDD'']) (rows joined)"
  using select_columns_plain(2,3) [OF assms [unfolded dfCleanMetadata_def]] by simp_all

lemma plain_flock_columns: "\<forall>p \<in> set (''globalid'' # col_list). \<not> (p \<noteq> [] \<and> last p = CHR ''*'')"
  by (simp add: col_list_def)

lemma dfFlockPivotTemp_Inr:
  assumes "dfFlockPivotTemp op = Inr long"
  shows "names long = [''globalid'', ''shortName'', ''value'']"
    and "rows long =
             filter (\<lambda>e. list_all (\<lambda>c. notnull (e c)) [''globalid'', ''shortName'', ''value''])
               (filter (\<lambda>e. ne_zero (e ''value''))
                  (concat (map (\<lambda>r. map (long_entry r) flock_shorts) (rows op))))"
proof -
  from assms obtain d1 where "select_columns (''globalid'' # col_list) op = Inr d1"
    unfolding dfFlockPivotTemp_alt by (auto simp: bindE_def split: sum.splits)
  from select_columns_plain(1) [OF this plain_flock_columns distinct_flock_columns]
  have "set (''globalid'' # col_list) \<subseteq> set (names op)" .
  from dfFlockPivotTemp_rows [OF this] assms
  show "names long = [''globalid'', ''shortName'', ''value'']"
    and "rows long =
             filter (\<lambda>e. list_all (\<lambda>c. notnull (e c)) [''globalid'', ''shortName'', ''value''])
               (filter (\<lambda>e. ne_zero (e ''value''))
                  (concat (map (\<lambda>r. map (long_entry r) flock_shorts) (rows op))))"
    by auto
qed

lemma dfFlockPivot_Inr:
  assumes "dfFlockPivot op = Inr pivot"
  shows "\<exists>long. dfFlockPivotTemp op = Inr long \<and> taxonomy long = Inr pivot \<and>
           names pivot = [''globalid'', ''shortName'', ''value'', ''scientificName'',
                          ''fwsTaxonCode'', ''ITISTaxonCode'']"
proof -
  from assms obtain long where l: "dfFlockPivotTemp op = Inr long" and t: "taxonomy long = Inr pivot"
    by (auto simp: dfFlockPivot_def bindE_def split: sum.splits)
  have n: "names long = [''globalid'', ''shortName'', ''value'']"
    by (rule dfFlockPivotTemp_Inr(1) [OF l])
  then have "''shortName'' \<in> set (names long)" by simp
  from taxonomy_run [OF this] t n
  have "names pivot = [''globalid'', ''shortName'', ''value'', ''scientificName'',
                          ''fwsTaxonCode'', ''ITISTaxonCode'']"
    by (auto simp: names_def map_fst_upd_header simp del: set_map)
  with l t show ?thesis by blast
qed

lemma change_timezone_raises:
  assumes "change_timezone_of_field db df src sfx stz ntz = (Some e, df')"
  shows "df' = df \<or>
         (\<exists>f xs. src \<in> set (names df) \<and> col_dtype df src = datetime64 \<and>
            zone_info db stz = Some f \<and> zone_info db ntz = None \<and>
            mapE (localize_cell f) (map (\<lambda>r. r src) (rows df)) = Inr xs \<and>
            df' = set_series src (datetime64tz stz, xs) df)"
proof (cases "missing [src] df")
  case (Cons k ks)
  with assms show ?thesis by (simp add: change_timezone_of_field_def)
next
  case Nil
  then have src: "src \<in> set (names df)" by (simp add: missing_Nil_iff)
  show ?thesis
  proof (cases "dt_tz_localize db stz (series df src)")
    case (Inl e')
    with assms Nil show ?thesis by (simp add: change_timezone_of_field_def)
  next
    case (Inr s1)
    from dt_tz_localize_Inr [OF Inr] obtain f where dt: "col_dtype df src = datetime64"
      and t1: "fst s1 = datetime64tz stz" and zi: "zone_info db stz = Some f"
      and xs: "mapE (localize_cell f) (map (\<lambda>r. r src) (rows df)) = Inr (snd s1)"
      by (auto simp: series_def)
    have s1: "s1 = (datetime64tz stz, snd s1)" using t1 by (cases s1) simp
    have len: "length (snd s1) = length (rows df)"
      using mapE_Inr_nth [OF xs] by simp
    from assms Nil Inr have
      c: "dt_tz_convert db ntz (series (set_series src s1 df) src) = Inl e" and
      d: "df' = set_series src s1 df"
      by (auto simp: change_timezone_of_field_def Let_def split: sum.splits)
    from c have "zone_info db ntz = None"
      by (auto simp: series_set_series_same [OF len] dt_tz_convert_def t1 split: option.splits)
    with src dt zi xs d s1 show ?thesis by metis
  qed
qed

lemma dfFlockLong_returns:
  assumes a: "set [''globalid_x'', ''globalid_y'', ''SiteName'', ''ObserverText'',
           ''EffortDate_Text'', ''EffortTime'', ''LocationDescription'', ''LocationOther'',
           ''EffortNotes'', ''LatitudeDD'', ''LongitudeDD''] \<subseteq> set (names joined)"
      and b: "set (''globalid'' # col_list) \<subseteq> set (names pts)"
  shows "\<exists>fl. dfFlockLong joined pts = Inr fl"
proof -
  have "\<exists>clean. dfCleanMetadata joined = Inr clean"
    unfolding dfCleanMetadata_def using a by (subst select_columns_exact) simp_all
  then obtain clean where c: "dfCleanMetadata joined = Inr clean" by blast
  note nc = dfCleanMetadata_Inr [OF c]
  from dfFlockPivotTemp_rows [OF b] obtain long where
    l: "dfFlockPivotTemp pts = Inr long" by blast
  note nl = dfFlockPivotTemp_Inr [OF l]
  have "''shortName'' \<in> set (names long)" by (simp add: nl(1))
  from taxonomy_run [OF this] obtain pivot where t: "taxonomy long = Inr pivot" by blast
  have p: "dfFlockPivot pts = Inr pivot"
    by (simp add: dfFlockPivot_def l t bindE_Inr)
  from dfFlockPivot_Inr [OF p] have np: "names pivot = [''globalid'', ''shortName'', ''value'',
      ''scientificName'', ''fwsTaxonCode'', ''ITISTaxonCode'']" by blast
  have ov2: "overlap clean pivot ''globalid_y'' ''globalid'' = []"
    by (simp add: overlap_def nc(1) np)
  have "distinct (map fst (merged_header clean pivot ''globalid_y'' ''globalid''))"
    unfolding map_fst_merged_header ov2
    by (simp add: suffixed_def right_kept_def nc(1) np [unfolded names_def] del: set_map)
  then have "\<exists>fl. merge_inner clean pivot ''globalid_y'' ''globalid'' = Inr fl"
    by (subst merge_inner_ok) (simp_all add: nc(1) np)
  then show ?thesis
    by (auto simp: dfFlockLong_def c p bindE_Inr)
qed

lemma names_of_map: "names \<lparr>header = map (\<lambda>c. (c, f c)) cs, rows = rs\<rparr> = cs"
  by (simp add: names_def comp_def)

lemma map_of_keyed: "c \<in> set cs \<Longrightarrow> map_of (map (\<lambda>c. (c, f c)) cs) c = Some (f c)"
  by (induction cs) auto

lemma col_dtype_of_map:
  "c \<in> set cs \<Longrightarrow> col_dtype \<lparr>header = map (\<lambda>c. (c, f c)) cs, rows = rs\<rparr> c = f c"
  by (simp add: col_dtype_def map_of_keyed)

lemma select_labels_self:
  "select_labels cs \<lparr>header = map (\<lambda>c. (c, f c)) cs, rows = rs\<rparr> =
     Inr \<lparr>header = map (\<lambda>c. (c, f c)) cs, rows = map (restrict_row cs) rs\<rparr>"
proof -
  have "missing cs \<lparr>header = map (\<lambda>c. (c, f c)) cs, rows = rs\<rparr> = []"
    by (simp add: missing_Nil_iff names_of_map)
  moreover have "map (\<lambda>c. (c, col_dtype \<lparr>header = map (\<lambda>c. (c, f c)) cs, rows = rs\<rparr> c)) cs =
        map (\<lambda>c. (c, f c)) cs"
    by (rule map_cong [OF refl]) (simp add: col_dtype_of_map)
  ultimately show ?thesis by (simp add: select_labels_def)
qed

lemma dropna_all_columns_selected:
  "dropna_all_columns \<lparr>header = map (\<lambda>c. (c, f c)) cs, rows = map (restrict_row cs) rs\<rparr> =
     \<lparr>header = map (\<lambda>c. (c, f c)) (filter (\<lambda>c. list_ex (\<lambda>r. notnull (r c)) rs) cs),
      rows = map (restrict_row (filter (\<lambda>c. list_ex (\<lambda>r. notnull (r c)) rs) cs)) rs\<rparr>"
proof -
  let ?K = "filter (\<lambda>c. list_ex (\<lambda>r. notnull (r c)) rs) cs"
  have "filter (\<lambda>c. list_ex (\<lambda>r. notnull (r c)) (map (restrict_row cs) rs)) cs = ?K"
    by (rule filter_cong [OF refl]) (simp add: restrict_row_def list_ex_iff)
  then have k: "filter (\<lambda>(c, t). list_ex (\<lambda>r. notnull (r c)) (map (restrict_row cs) rs))
             (map (\<lambda>c. (c, f c)) cs) = map (\<lambda>c. (c, f c)) ?K"
    by (simp add: filter_map comp_def)
  have r: "restrict_row ?K (restrict_row cs r) = restrict_row ?K r" for r
    by (auto simp: restrict_row_def fun_eq_iff)
  show ?thesis
    by (simp only: dropna_all_columns_def Let_def dataframe.select_convs k)
       (simp add: comp_def r)
qed

lemma example_kept_columns: "filter (\<lambda>c. list_ex (\<lambda>r. notnull (r c)) example_neckband_rows) neckband_columns
   = example_kept"
  by (simp add: example_neckband_rows_def neckband_columns_def notnull_def example_kept_def)

lemma neckband_nonnull_columns:
  "steps (select_labels neckband_columns # (\<lambda>df. Inr (dropna_all_columns df)) # fs)
     example_neckband_joined = steps fs example_nonnull"
  unfolding example_neckband_joined_def steps.simps select_labels_self bindE_Inr
    dropna_all_columns_selected example_kept_columns example_nonnull_def ..

lemma upper_ch_a12:
  "upper_ch CHR ''a'' = CHR ''A''" "upper_ch CHR ''1'' = CHR ''1''" "upper_ch CHR ''2'' = CHR ''2''"
  by code_simp+

lemma dfDuskyNeckband_example:
  "dfDuskyNeckband example_neckband_joined =
     steps [(\<lambda>df. Inr (set_col ''Prec'' object (\<lambda>r. StrV ''0'') df)),
            populate_Location,
            uppercase_Dusky_columns,
            (\<lambda>df. Inr (select_DuskyCollar_rows df))] example_nonnull"
  unfolding dfDuskyNeckband_def by (rule neckband_nonnull_columns)

lemma dfDuskyNeckbandMB_example:
  "\<exists>d. dfDuskyNeckbandMB example_neckband_joined = Inr d \<and>
     map (\<lambda>r. (r ''globalid'', r ''DuskyCollar1'', r ''Pres'')) (rows d) =
       [(StrV ''p1'', StrV ''A12'', IntV 3), (StrV ''p2'', NA, IntV 4)]"
proof -
  have eq: "dfDuskyNeckbandMB example_neckband_joined =
     bindE (steps [(\<lambda>df. Inr (set_col ''Prec'' object (\<lambda>r. StrV ''0'') df)),
            populate_Location,
            uppercase_Dusky_columns,
            (\<lambda>df. Inr (select_DuskyCollar_rows df))] example_nonnull)
       (steps [select_columns [''globalid_y'', ''State'', ''EffortDate_Text'', ''EffortTime'',
                  ''Prec'', ''LatitudeDD'', ''LongitudeDD'', ''ObserverText'', ''SiteName'',
                  ''LocationDescription'', ''Location'', ''Dusky*'', ''Total''],
               rename_columns [(''globalid_y'', ''globalid''), (''EffortDate_Text'', ''Date''),
                  (''LatitudeDD'', ''Latdd''), (''LongitudeDD'', ''Longdd''),
                  (''ObserverText'', ''Obs''), (''DuskyCount'', ''Pres'')]])"
    by (simp only: dfDuskyNeckbandMB_def steps.simps dfDuskyNeckband_example)
  show ?thesis
    unfolding eq
    by (simp add: example_nonnull_def example_kept_def example_neckband_rows_def example_dtype_def
       col_list_def bindE_def set_col_def upd_header_def populate_Location_def names_def
       col_dtype_def na_rep_empty_def restrict_row_def uppercase_Dusky_columns_def
       upper_consistent_def str_accessor_fails_def notnull_def regex_Dusky_star_def select_DuskyCollar_rows_def like_columns_def
       isnull_def upper_cell_def select_columns_def select_entry_def fnmatch_def unique_first_def
       rename_columns_def renamed_def missing_def upper_ch_a12)
qed

lemma dfDuskyNeckbandNWR_example:
  "\<exists>d. dfDuskyNeckbandNWR example_neckband_joined = Inr d \<and>
     map (\<lambda>r. (r ''occurrenceID'', r ''DuskyCollar1'', r ''DuskyCount'')) (rows d) =
       [(StrV ''p1'', StrV ''A12'', IntV 3), (StrV ''p2'', NA, IntV 4)]"
proof -
  have eq: "dfDuskyNeckbandNWR example_neckband_joined =
     bindE (steps [(\<lambda>df. Inr (set_col ''Prec'' object (\<lambda>r. StrV ''0'') df)),
            populate_Location,
            uppercase_Dusky_columns,
            (\<lambda>df. Inr (select_DuskyCollar_rows df))] example_nonnull)
       (steps [select_columns [''globalid_y'', ''SiteName'', ''LocationDescription'',
                  ''EffortDate_Text'', ''EffortTime'', ''ObserverText'', ''Dusky*'', ''Total'',
                  ''LatitudeDD'', ''LongitudeDD''],
               rename_columns [(''globalid_y'', ''occurrenceID''), (''SiteName'', ''location''),
                  (''EffortTime'', ''eventTime''), (''EffortDate_Text'', ''eventDate''),
                  (''LatitudeDD'', ''decimalLatitude''), (''LongitudeDD'', ''decimalLongitude''),
                  (''ObserverText'', ''recordedBy'')]])"
    by (simp only: dfDuskyNeckbandNWR_def steps.simps dfDuskyNeckband_example)
  show ?thesis
    unfolding eq
    by (simp add: example_nonnull_def example_kept_def example_neckband_rows_def example_dtype_def
       col_list_def bindE_def set_col_def upd_header_def populate_Location_def names_def
       col_dtype_def na_rep_empty_def restrict_row_def uppercase_Dusky_columns_def
       upper_consistent_def str_accessor_fails_def notnull_def regex_Dusky_star_def select_DuskyCollar_rows_def like_columns_def
       isnull_def upper_cell_def select_columns_def select_entry_def fnmatch_def unique_first_def
       rename_columns_def renamed_def missing_def upper_ch_a12)
qed

lemma example_collars_null:
  "length (filter (startswith ''DuskyCollar'') neckband_columns) = 30 \<and>
   list_all (\<lambda>c. (rows example_neckband_joined ! 1) c = NA)
     (filter (startswith ''DuskyCollar'') neckband_columns)"
  by (simp add: example_neckband_joined_def example_neckband_rows_def neckband_columns_def)

section \<open>Observer resolution\<close>

text \<open>
  C8.  On a metadata table that has the fields \<open>Observer\<close> and \<open>ObserverOther\<close>, cell 13
  runs without error, keeps every row in place, and gives each row the \<open>ObserverText\<close>
  that is its \<open>ObserverOther\<close> when its \<open>Observer\<close> is the string \<open>Other\<close> and its
  \<open>Observer\<close> in every other case (a null \<open>Observer\<close> included); no other field of the
  row changes.
\<close>

theorem ObserverText_resolved:
  assumes "''Observer'' \<in> set (names df)" and "''ObserverOther'' \<in> set (names df)"
  shows "\<exists>df'. populate_ObserverText df = Inr df' \<and> length (rows df') = length (rows df) \<and>
           (\<forall>i < length (rows df).
              (rows df' ! i) ''ObserverText'' =
                (if (rows df ! i) ''Observer'' = StrV ''Other'' then (rows df ! i) ''ObserverOther''
                 else (rows df ! i) ''Observer'') \<and>
              (\<forall>c. c \<noteq> ''ObserverText'' \<longrightarrow> (rows df' ! i) c = (rows df ! i) c))"
proof -
  let ?df1 = "set_col ''ObserverText'' (col_dtype df ''Observer'') (\<lambda>r. r ''Observer'') df"
  have m0: "missing [''Observer''] df = []"
    using assms by (simp add: missing_Nil_iff)
  have "set [''ObserverOther'', ''Observer''] \<subseteq> set (names ?df1)"
    using assms by (simp add: names_set_col)
  then have run: "populate_ObserverText df =
      Inr (loc_set (\<lambda>r. r ''Observer'' = StrV ''Other'') ''ObserverText'' object
             (\<lambda>r. r ''ObserverOther'') ?df1)"
    unfolding populate_ObserverText_def m0 by (simp add: loc_assign_ok)
  show ?thesis
    unfolding run by (simp add: rows_loc_set rows_set_col names_set_col)
qed

theorem ObserverText_resolved_witness:
  "''Observer'' \<in> set (names example_metadata) \<and> ''ObserverOther'' \<in> set (names example_metadata) \<and>
   (\<exists>df'. populate_ObserverText example_metadata = Inr df' \<and>
      (rows df' ! 0) ''ObserverText'' = StrV ''J. Smith'' \<and>
      (rows df' ! 1) ''ObserverText'' = StrV ''K. So'')"
proof -
  have a: "''Observer'' \<in> set (names example_metadata)"
    by (simp add: names_def example_metadata_def)
  have b: "''ObserverOther'' \<in> set (names example_metadata)"
    by (simp add: names_def example_metadata_def)
  from ObserverText_resolved [OF a b] obtain df' where
    r: "populate_ObserverText example_metadata = Inr df'" and
    p: "\<forall>i < length (rows example_metadata).
              (rows df' ! i) ''ObserverText'' =
                (if (rows example_metadata ! i) ''Observer'' = StrV ''Other''
                 then (rows example_metadata ! i) ''ObserverOther''
                 else (rows example_metadata ! i) ''Observer'') \<and>
              (\<forall>c. c \<noteq> ''ObserverText'' \<longrightarrow> (rows df' ! i) c = (rows example_metadata ! i) c)"
    by blast
  have "(rows df' ! 0) ''ObserverText'' = StrV ''J. Smith''"
    using p [rule_format, of 0] by (simp add: example_metadata_def)
  moreover have "(rows df' ! 1) ''ObserverText'' = StrV ''K. So''"
    using p [rule_format, of 1] by (simp add: example_metadata_def)
  ultimately show ?thesis using a b r by blast
qed

section \<open>State assignment\<close>

text \<open>
  C9.  On a metadata table that has the field \<open>SiteName\<close>, and at least one row or
  already a field \<open>State\<close>, cell 14 runs without error, keeps every row in place, and
  gives each row the \<open>State\<close> \<open>WA\<close> when its site is in the Washington list and \<open>OR\<close> when
  it is in the Oregon list; for a site in neither list nothing is assigned: \<open>State\<close> is
  null when the table had no such field, and what it was otherwise.  No other field of
  the row changes.  (On a table without rows and without \<open>State\<close> the first assignment
  raises \<open>ValueError\<close>: a scalar cannot create a column of a frame that has no index.)
\<close>

theorem State_assigned:
  assumes "''SiteName'' \<in> set (names df)"
      and "rows df \<noteq> [] \<or> ''State'' \<in> set (names df)"
  shows "\<exists>df'. populate_State df = Inr df' \<and> length (rows df') = length (rows df) \<and>
           (\<forall>i < length (rows df).
              (rows df' ! i) ''State'' =
                (if isin WA_filter ((rows df ! i) ''SiteName'') then StrV ''WA''
                 else if isin OR_filter ((rows df ! i) ''SiteName'') then StrV ''OR''
                 else if ''State'' \<in> set (names df) then (rows df ! i) ''State''
                 else NA) \<and>
              (\<forall>c. c \<noteq> ''State'' \<longrightarrow> (rows df' ! i) c = (rows df ! i) c))"
proof -
  let ?df1 = "loc_set (\<lambda>r. isin WA_filter (r ''SiteName'')) ''State'' object (\<lambda>r. StrV ''WA'') df"
  have s1: "loc_assign_scalar [''SiteName''] (\<lambda>r. isin WA_filter (r ''SiteName'')) ''State'' object
              (StrV ''WA'') df = Inr ?df1"
    using assms by (intro loc_assign_scalar_ok) simp_all
  have "set [''SiteName''] \<subseteq> set (names ?df1)" and "''State'' \<in> set (names ?df1)"
    using assms by (simp_all add: names_loc_set)
  then have run: "populate_State df =
      Inr (loc_set (\<lambda>r. isin OR_filter (r ''SiteName'')) ''State'' object (\<lambda>r. StrV ''OR'') ?df1)"
    unfolding populate_State_def s1 bindE_Inr by (intro loc_assign_scalar_ok) simp_all
  show ?thesis
    unfolding run using WA_OR_disjoint
    by (simp add: rows_loc_set names_loc_set)
qed

theorem State_assigned_witness:
  "''SiteName'' \<in> set (names example_metadata) \<and>
   rows example_metadata \<noteq> [] \<and>
   (\<exists>df'. populate_State example_metadata = Inr df' \<and>
      (rows df' ! 0) ''State'' = StrV ''WA'' \<and>
      (rows df' ! 1) ''State'' = StrV ''OR'' \<and>
      (rows df' ! 2) ''State'' = NA)"
proof -
  have a: "''SiteName'' \<in> set (names example_metadata)"
    by (simp add: names_def example_metadata_def)
  have n: "''State'' \<notin> set (names example_metadata)"
    by (simp add: names_def example_metadata_def)
  have b: "rows example_metadata \<noteq> []"
    by (simp add: example_metadata_def)
  from State_assigned [OF a disjI1 [OF b]] obtain df' where
    r: "populate_State example_metadata = Inr df'" and
    p: "\<forall>i < length (rows example_metadata).
              (rows df' ! i) ''State'' =
                (if isin WA_filter ((rows example_metadata ! i) ''SiteName'') then StrV ''WA''
                 else if isin OR_filter ((rows example_metadata ! i) ''SiteName'') then StrV ''OR''
                 else if ''State'' \<in> set (names example_metadata)
                      then (rows example_metadata ! i) ''State''
                 else NA) \<and>
              (\<forall>c. c \<noteq> ''State'' \<longrightarrow> (rows df' ! i) c = (rows example_metadata ! i) c)"
    by blast
  have "(rows df' ! 0) ''State'' = StrV ''WA''"
    using p [rule_format, of 0] by (simp add: example_metadata_def isin_def WA_filter_def)
  moreover have "(rows df' ! 1) ''State'' = StrV ''OR''"
    using p [rule_format, of 1]
    by (simp add: example_metadata_def isin_def WA_filter_def OR_filter_def)
  moreover have "(rows df' ! 2) ''State'' = NA"
    using p [rule_format, of 2] n
    by (simp add: example_metadata_def isin_def WA_filter_def OR_filter_def)
  ultimately show ?thesis using a b r by blast
qed

section \<open>Coordinate resolution\<close>

text \<open>
  C2.  On a table that has the site name and the measured and prepopulated coordinates
  (the joined table of cell 15), cell 16 runs without error and keeps every row in
  place.  A row whose site is in the prepopulated list and whose prepopulated latitude
  is not null gets that latitude as \<open>LatitudeDD\<close>; every other row gets its measured
  \<open>Latitude\<close>.  The same holds for the longitude, independently.  No other field of the
  row changes.
\<close>

theorem LatLongDD_resolved:
  assumes "{''SiteName'', ''Latitude'', ''Longitude'', ''Latitude_Prepopulated'',
            ''Longitude_Prepopulated''} \<subseteq> set (names df)"
  shows "\<exists>df'. populate_LatLongDD df = Inr df' \<and> length (rows df') = length (rows df) \<and>
           (\<forall>i < length (rows df).
              (rows df' ! i) ''LatitudeDD'' =
                (if isin Prepopulated_filter ((rows df ! i) ''SiteName'') \<and>
                    (rows df ! i) ''Latitude_Prepopulated'' \<noteq> NA
                 then (rows df ! i) ''Latitude_Prepopulated'' else (rows df ! i) ''Latitude'') \<and>
              (rows df' ! i) ''LongitudeDD'' =
                (if isin Prepopulated_filter ((rows df ! i) ''SiteName'') \<and>
                    (rows df ! i) ''Longitude_Prepopulated'' \<noteq> NA
                 then (rows df ! i) ''Longitude_Prepopulated'' else (rows df ! i) ''Longitude'') \<and>
              (\<forall>c. c \<noteq> ''LatitudeDD'' \<and> c \<noteq> ''LongitudeDD'' \<longrightarrow>
                   (rows df' ! i) c = (rows df ! i) c))"
proof -
  let ?S = "{''SiteName'', ''Latitude'', ''Longitude'', ''Latitude_Prepopulated'',
            ''Longitude_Prepopulated''}"
  define d1 where "d1 = loc_set
         (\<lambda>r. isin Prepopulated_filter (r ''SiteName'') \<and> notnull (r ''Latitude_Prepopulated''))
         ''LatitudeDD'' float64 (\<lambda>r. r ''Latitude_Prepopulated'') df"
  define d2 where "d2 = loc_set
         (\<lambda>r. isin Prepopulated_filter (r ''SiteName'') \<and> notnull (r ''Longitude_Prepopulated''))
         ''LongitudeDD'' float64 (\<lambda>r. r ''Longitude_Prepopulated'') d1"
  define d3 where "d3 = loc_set
         (\<lambda>r. isin Prepopulated_filter (r ''SiteName'') \<and> isnull (r ''Latitude_Prepopulated''))
         ''LatitudeDD'' float64 (\<lambda>r. r ''Latitude'') d2"
  define d4 where "d4 = loc_set
         (\<lambda>r. isin Prepopulated_filter (r ''SiteName'') \<and> isnull (r ''Longitude_Prepopulated''))
         ''LongitudeDD'' float64 (\<lambda>r. r ''Longitude'') d3"
  define d5 where "d5 = loc_set (\<lambda>r. \<not> isin Prepopulated_filter (r ''SiteName''))
         ''LatitudeDD'' float64 (\<lambda>r. r ''Latitude'') d4"
  define d6 where "d6 = loc_set (\<lambda>r. \<not> isin Prepopulated_filter (r ''SiteName''))
         ''LongitudeDD'' float64 (\<lambda>r. r ''Longitude'') d5"
  have n0: "?S \<subseteq> set (names df)" by (rule assms)
  have n1: "?S \<subseteq> set (names d1)" unfolding d1_def by (rule names_loc_set_mono [OF n0])
  have n2: "?S \<subseteq> set (names d2)" unfolding d2_def by (rule names_loc_set_mono [OF n1])
  have n3: "?S \<subseteq> set (names d3)" unfolding d3_def by (rule names_loc_set_mono [OF n2])
  have n4: "?S \<subseteq> set (names d4)" unfolding d4_def by (rule names_loc_set_mono [OF n3])
  have n5: "?S \<subseteq> set (names d5)" unfolding d5_def by (rule names_loc_set_mono [OF n4])
  have run: "populate_LatLongDD df = Inr d6"
    unfolding populate_LatLongDD_def
    apply (subst loc_assign_step) subgoal using n0 by simp
    apply (fold d1_def)
    apply (subst loc_assign_step) subgoal using n1 by simp
    apply (fold d2_def)
    apply (subst loc_assign_step) subgoal using n2 by simp
    apply (fold d3_def)
    apply (subst loc_assign_step) subgoal using n3 by simp
    apply (fold d4_def)
    apply (subst loc_assign_step) subgoal using n4 by simp
    apply (fold d5_def)
    apply (subst loc_assign_step) subgoal using n5 by simp
    apply (fold d6_def)
    by simp
  have len: "length (rows d1) = length (rows df)" "length (rows d2) = length (rows df)"
    "length (rows d3) = length (rows df)" "length (rows d4) = length (rows df)"
    "length (rows d5) = length (rows df)" "length (rows d6) = length (rows df)"
    by (simp_all add: d1_def d2_def d3_def d4_def d5_def d6_def length_rows_loc_set)
  have lat1: "''LatitudeDD'' \<in> set (names d2)" "''LatitudeDD'' \<in> set (names d4)"
    by (simp_all add: d1_def d2_def d3_def d4_def names_loc_set)
  have lon1: "''LongitudeDD'' \<in> set (names d3)" "''LongitudeDD'' \<in> set (names d5)"
    by (simp_all add: d2_def d3_def d4_def d5_def names_loc_set)
  have row: "rows d6 ! i =
      (rows df ! i)(''LatitudeDD'' :=
                  (if isin Prepopulated_filter ((rows df ! i) ''SiteName'') \<and>
                      (rows df ! i) ''Latitude_Prepopulated'' \<noteq> NA
                   then (rows df ! i) ''Latitude_Prepopulated'' else (rows df ! i) ''Latitude''),
                ''LongitudeDD'' :=
                  (if isin Prepopulated_filter ((rows df ! i) ''SiteName'') \<and>
                      (rows df ! i) ''Longitude_Prepopulated'' \<noteq> NA
                   then (rows df ! i) ''Longitude_Prepopulated'' else (rows df ! i) ''Longitude''))"
    if i: "i < length (rows df)" for i
  proof -
    have r1: "rows d1 ! i = (rows df ! i)(''LatitudeDD'' :=
        (if isin Prepopulated_filter ((rows df ! i) ''SiteName'') \<and>
            (rows df ! i) ''Latitude_Prepopulated'' \<noteq> NA
         then (rows df ! i) ''Latitude_Prepopulated''
         else if ''LatitudeDD'' \<in> set (names df) then (rows df ! i) ''LatitudeDD'' else NA))"
      unfolding d1_def using i by (simp add: nth_rows_loc_set notnull_def)
    have r2: "rows d2 ! i = (rows d1 ! i)(''LongitudeDD'' :=
        (if isin Prepopulated_filter ((rows df ! i) ''SiteName'') \<and>
            (rows df ! i) ''Longitude_Prepopulated'' \<noteq> NA
         then (rows df ! i) ''Longitude_Prepopulated''
         else if ''LongitudeDD'' \<in> set (names d1) then (rows df ! i) ''LongitudeDD'' else NA))"
      unfolding d2_def using i len by (simp add: nth_rows_loc_set notnull_def r1)
    have r3: "rows d3 ! i = (rows d2 ! i)(''LatitudeDD'' :=
        (if isin Prepopulated_filter ((rows df ! i) ''SiteName'') \<and>
            (rows df ! i) ''Latitude_Prepopulated'' = NA
         then (rows df ! i) ''Latitude''
         else (rows d1 ! i) ''LatitudeDD''))"
      unfolding d3_def using i len lat1 by (simp add: nth_rows_loc_set isnull_def r1 r2)
    have r4: "rows d4 ! i = (rows d3 ! i)(''LongitudeDD'' :=
        (if isin Prepopulated_filter ((rows df ! i) ''SiteName'') \<and>
            (rows df ! i) ''Longitude_Prepopulated'' = NA
         then (rows df ! i) ''Longitude''
         else (rows d2 ! i) ''LongitudeDD''))"
      unfolding d4_def using i len lon1 by (simp add: nth_rows_loc_set isnull_def r1 r2 r3)
    have r5: "rows d5 ! i = (rows d4 ! i)(''LatitudeDD'' :=
        (if \<not> isin Prepopulated_filter ((rows df ! i) ''SiteName'')
         then (rows df ! i) ''Latitude''
         else (rows d3 ! i) ''LatitudeDD''))"
      unfolding d5_def using i len lat1 by (simp add: nth_rows_loc_set r1 r2 r3 r4)
    have r6: "rows d6 ! i = (rows d5 ! i)(''LongitudeDD'' :=
        (if \<not> isin Prepopulated_filter ((rows df ! i) ''SiteName'')
         then (rows df ! i) ''Longitude''
         else (rows d4 ! i) ''LongitudeDD''))"
      unfolding d6_def using i len lon1 by (simp add: nth_rows_loc_set r1 r2 r3 r4 r5)
    show ?thesis
      unfolding r6 r5 r4 r3 r2 r1 by (rule ext) simp
  qed
  show ?thesis
    using run len(6) row by simp
qed

theorem LatLongDD_resolved_witness:
  "{''SiteName'', ''Latitude'', ''Longitude'', ''Latitude_Prepopulated'',
    ''Longitude_Prepopulated''} \<subseteq> set (names example_joined) \<and>
   (\<exists>df'. populate_LatLongDD example_joined = Inr df' \<and>
      (rows df' ! 0) ''LatitudeDD'' = FltV (4581 / 100) \<and>
      (rows df' ! 0) ''LongitudeDD'' = FltV (- 12275 / 100) \<and>
      (rows df' ! 1) ''LatitudeDD'' = FltV (4478 / 100) \<and>
      (rows df' ! 1) ''LongitudeDD'' = FltV (- 12308 / 100))"
proof -
  have a: "{''SiteName'', ''Latitude'', ''Longitude'', ''Latitude_Prepopulated'',
            ''Longitude_Prepopulated''} \<subseteq> set (names example_joined)"
    by (simp add: names_def example_joined_def)
  from LatLongDD_resolved [OF a] obtain df' where
    r: "populate_LatLongDD example_joined = Inr df'" and
    p: "\<forall>i < length (rows example_joined).
              (rows df' ! i) ''LatitudeDD'' =
                (if isin Prepopulated_filter ((rows example_joined ! i) ''SiteName'') \<and>
                    (rows example_joined ! i) ''Latitude_Prepopulated'' \<noteq> NA
                 then (rows example_joined ! i) ''Latitude_Prepopulated''
                 else (rows example_joined ! i) ''Latitude'') \<and>
              (rows df' ! i) ''LongitudeDD'' =
                (if isin Prepopulated_filter ((rows example_joined ! i) ''SiteName'') \<and>
                    (rows example_joined ! i) ''Longitude_Prepopulated'' \<noteq> NA
                 then (rows example_joined ! i) ''Longitude_Prepopulated''
                 else (rows example_joined ! i) ''Longitude'') \<and>
              (\<forall>c. c \<noteq> ''LatitudeDD'' \<and> c \<noteq> ''LongitudeDD'' \<longrightarrow>
                   (rows df' ! i) c = (rows example_joined ! i) c)"
    by blast
  have "(rows df' ! 0) ''LatitudeDD'' = FltV (4581 / 100) \<and>
        (rows df' ! 0) ''LongitudeDD'' = FltV (- 12275 / 100)"
    using p [rule_format, of 0]
    by (simp add: example_joined_def isin_def Prepopulated_filter_def)
  moreover have "(rows df' ! 1) ''LatitudeDD'' = FltV (4478 / 100) \<and>
        (rows df' ! 1) ''LongitudeDD'' = FltV (- 12308 / 100)"
    using p [rule_format, of 1]
    by (simp add: example_joined_def isin_def Prepopulated_filter_def)
  ultimately show ?thesis using a r by blast
qed

section \<open>Total count\<close>

text \<open>
  C1.  On a table that has the 17 count fields as numeric columns (\<open>int64\<close>, or
  \<open>float64\<close> as pandas stores a whole-number column that has nulls), each holding on
  every row a null or a whole number of magnitude at most \<open>2^48\<close>, cell 17 runs without
  error, keeps every row in place, and gives each row a \<open>Total\<close> equal to the sum of its
  17 named count fields with a null counted as 0; no other field of the row changes.
  Within the bound the 64-bit sum of pandas neither wraps (\<open>int64\<close>) nor rounds
  (\<open>float64\<close>): it is the mathematical sum.
\<close>

theorem Total_is_sum_of_counts:
  assumes cols: "set col_list \<subseteq> set (names df)"
      and dts: "\<forall>c \<in> set col_list. col_dtype df c = int64 \<or> col_dtype df c = float64"
      and nums: "\<forall>r \<in> set (rows df). \<forall>c \<in> set col_list.
                   r c = NA \<or> (\<exists>n. r c = IntV n \<and> \<bar>n\<bar> \<le> 2 ^ 48)"
  shows "\<exists>df'. populate_Total df = Inr df' \<and> length (rows df') = length (rows df) \<and>
           (\<forall>i < length (rows df).
              (rows df' ! i) ''Total'' =
                IntV (count_or_zero ((rows df ! i) ''DuskyCount'') +
                      count_or_zero ((rows df ! i) ''WuskyCount'') +
                      count_or_zero ((rows df ! i) ''WesternCount'') +
                      count_or_zero ((rows df ! i) ''TavLessCount'') +
                      count_or_zero ((rows df ! i) ''TavCount'') +
                      count_or_zero ((rows df ! i) ''LessCount'') +
                      count_or_zero ((rows df ! i) ''AleutianCount'') +
                      count_or_zero ((rows df ! i) ''CacklingCount'') +
                      count_or_zero ((rows df ! i) ''UnknownCanadaCount'') +
                      count_or_zero ((rows df ! i) ''UnknownCacklerCount'') +
                      count_or_zero ((rows df ! i) ''WhiteFrontedCount'') +
                      count_or_zero ((rows df ! i) ''SnowCount'') +
                      count_or_zero ((rows df ! i) ''RossCount'') +
                      count_or_zero ((rows df ! i) ''UnknownGooseCount'') +
                      count_or_zero ((rows df ! i) ''TrumpeterCount'') +
                      count_or_zero ((rows df ! i) ''TundraCount'') +
                      count_or_zero ((rows df ! i) ''UnknownSwanCount'')) \<and>
              (\<forall>c. c \<noteq> ''Total'' \<longrightarrow> (rows df' ! i) c = (rows df ! i) c))"
proof -
  let ?g = "\<lambda>r. r(''Total'' := IntV (sum_list (map count_or_zero (map r col_list))))"
  define ty where "ty = (if list_all (\<lambda>c. col_dtype df c = int64) col_list then int64 else float64)"
  have m0: "missing col_list df = []"
    using cols by (simp add: missing_Nil_iff)
  have ts: "list_all (\<lambda>t. t = int64 \<or> t = float64) (map (col_dtype df) col_list)"
    using dts by (simp add: list_all_iff)
  have len: "length (map r col_list) = 17" for r :: row
    by (simp add: col_list_def)
  have each: "bindE (row_sum (map (col_dtype df) col_list) (map r col_list))
                (\<lambda>s. Inr (r(''Total'' := s))) = Inr (?g r)"
    if "r \<in> set (rows df)" for r
  proof -
    have "row_sum (map (col_dtype df) col_list) (map r col_list) =
            Inr (IntV (sum_list (map count_or_zero (map r col_list))))"
      using nums that by (intro row_sum_counts ts len) auto
    then show ?thesis by (simp add: bindE_Inr)
  qed
  have run: "populate_Total df =
     Inr \<lparr>header = upd_header ''Total'' ty (header df), rows = map ?g (rows df)\<rparr>"
    unfolding populate_Total_def m0 ty_def using mapE_all_Inr [of "rows df" _ ?g, OF each]
    by (simp add: bindE_Inr)
  have total: "sum_list (map (count_or_zero \<circ> r) col_list) =
       count_or_zero (r ''DuskyCount'') + count_or_zero (r ''WuskyCount'') +
       count_or_zero (r ''WesternCount'') + count_or_zero (r ''TavLessCount'') +
       count_or_zero (r ''TavCount'') + count_or_zero (r ''LessCount'') +
       count_or_zero (r ''AleutianCount'') + count_or_zero (r ''CacklingCount'') +
       count_or_zero (r ''UnknownCanadaCount'') + count_or_zero (r ''UnknownCacklerCount'') +
       count_or_zero (r ''WhiteFrontedCount'') + count_or_zero (r ''SnowCount'') +
       count_or_zero (r ''RossCount'') + count_or_zero (r ''UnknownGooseCount'') +
       count_or_zero (r ''TrumpeterCount'') + count_or_zero (r ''TundraCount'') +
       count_or_zero (r ''UnknownSwanCount'')" for r
    by (simp add: col_list_def)
  show ?thesis
    unfolding run by (simp add: total)
qed

theorem Total_is_sum_of_counts_witness:
  "set col_list \<subseteq> set (names example_joined) \<and>
   list_all (\<lambda>c. col_dtype example_joined c = float64) col_list \<and>
   list_all (\<lambda>r. list_all (\<lambda>c. r c = NA \<or> (\<exists>n. r c = IntV n \<and> \<bar>n\<bar> \<le> 2 ^ 48)) col_list)
     (rows example_joined) \<and>
   (\<exists>df'. populate_Total example_joined = Inr df' \<and>
      (rows df' ! 0) ''Total'' = IntV 17 \<and> (rows df' ! 1) ''Total'' = IntV 0)"
proof -
  have a: "set col_list \<subseteq> set (names example_joined)"
    by (auto simp: names_def example_joined_def)
  have d: "\<forall>c \<in> set col_list. col_dtype example_joined c = float64"
    by (simp add: col_dtype_def example_joined_def col_list_def)
  then have d': "\<forall>c \<in> set col_list.
      col_dtype example_joined c = int64 \<or> col_dtype example_joined c = float64"
    by blast
  have b: "\<forall>r \<in> set (rows example_joined). \<forall>c \<in> set col_list.
      r c = NA \<or> (\<exists>n. r c = IntV n \<and> \<bar>n\<bar> \<le> 2 ^ 48)"
    by (simp add: example_joined_def col_list_def)
  from Total_is_sum_of_counts [OF a d' b] obtain df' where
    r: "populate_Total example_joined = Inr df'" and
    p: "\<forall>i < length (rows example_joined).
              (rows df' ! i) ''Total'' =
                IntV (count_or_zero ((rows example_joined ! i) ''DuskyCount'') +
                      count_or_zero ((rows example_joined ! i) ''WuskyCount'') +
                      count_or_zero ((rows example_joined ! i) ''WesternCount'') +
                      count_or_zero ((rows example_joined ! i) ''TavLessCount'') +
                      count_or_zero ((rows example_joined ! i) ''TavCount'') +
                      count_or_zero ((rows example_joined ! i) ''LessCount'') +
                      count_or_zero ((rows example_joined ! i) ''AleutianCount'') +
                      count_or_zero ((rows example_joined ! i) ''CacklingCount'') +
                      count_or_zero ((rows example_joined ! i) ''UnknownCanadaCount'') +
                      count_or_zero ((rows example_joined ! i) ''UnknownCacklerCount'') +
                      count_or_zero ((rows example_joined ! i) ''WhiteFrontedCount'') +
                      count_or_zero ((rows example_joined ! i) ''SnowCount'') +
                      count_or_zero ((rows example_joined ! i) ''RossCount'') +
                      count_or_zero ((rows example_joined ! i) ''UnknownGooseCount'') +
                      count_or_zero ((rows example_joined ! i) ''TrumpeterCount'') +
                      count_or_zero ((rows example_joined ! i) ''TundraCount'') +
                      count_or_zero ((rows example_joined ! i) ''UnknownSwanCount'')) \<and>
              (\<forall>c. c \<noteq> ''Total'' \<longrightarrow> (rows df' ! i) c = (rows example_joined ! i) c)"
    by blast
  have "(rows df' ! 0) ''Total'' = IntV 17"
    using p [rule_format, of 0] by (simp add: example_joined_def count_or_zero_def)
  moreover have "(rows df' ! 1) ''Total'' = IntV 0"
    using p [rule_format, of 1] by (simp add: example_joined_def count_or_zero_def)
  moreover have "list_all (\<lambda>c. col_dtype example_joined c = float64) col_list"
    using d by (simp add: list_all_iff)
  moreover have "list_all (\<lambda>r. list_all (\<lambda>c. r c = NA \<or> (\<exists>n. r c = IntV n \<and> \<bar>n\<bar> \<le> 2 ^ 48))
      col_list) (rows example_joined)"
    using b by (simp add: list_all_iff)
  ultimately show ?thesis using a r by blast
qed

section \<open>Inner joins\<close>

text \<open>
  C6.  The join of cell 15 returns a table whenever the events have a \<open>globalid\<close>, the
  points a \<open>parentglobalid\<close>, and no label repeats once the suffixes are added.  Whenever
  it returns a table, every row of it is built from a survey event and an observation
  point with the event's \<open>globalid\<close> equal to the point's \<open>parentglobalid\<close>, and it shows
  that value under the label of either key (\<open>globalid_x\<close> and \<open>parentglobalid\<close> when, as in
  the feature service, both tables have a \<open>globalid\<close> and only the points have a
  \<open>parentglobalid\<close>); the table has exactly one row per such pair, so nothing is padded,
  and an event or a point whose key the other table lacks is part of no row.

  The join of cell 25 returns a table whenever the joined table has the 11 fields that
  cell 24 selects and the points have \<open>globalid\<close> and the 17 count fields.  Whenever it
  returns a table, the same holds of it, for the cleaned metadata with key \<open>globalid_y\<close>
  and the pivoted flock table with key \<open>globalid\<close>, both shown under these labels.
\<close>

theorem inner_joins_keys_equal:
  "(''globalid'' \<in> set (names md) \<and> ''parentglobalid'' \<in> set (names op) \<and>
    distinct (map fst (merged_header md op ''globalid'' ''parentglobalid'')) \<longrightarrow>
      (\<exists>j. sedfMetadataYYYY_ObservationPoint md op = Inr j)) \<and>
   (sedfMetadataYYYY_ObservationPoint md op = Inr j \<longrightarrow>
      inner_join_result md op ''globalid'' ''parentglobalid''
        (suffixed (overlap md op ''globalid'' ''parentglobalid'') ''_x'' ''globalid'')
        (suffixed (overlap md op ''globalid'' ''parentglobalid'') ''_y'' ''parentglobalid'') j \<and>
      (''globalid'' \<in> set (names op) \<and> ''parentglobalid'' \<notin> set (names md) \<longrightarrow>
         inner_join_result md op ''globalid'' ''parentglobalid'' ''globalid_x'' ''parentglobalid'' j)) \<and>
   (set [''globalid_x'', ''globalid_y'', ''SiteName'', ''ObserverText'', ''EffortDate_Text'',
         ''EffortTime'', ''LocationDescription'', ''LocationOther'', ''EffortNotes'',
         ''LatitudeDD'', ''LongitudeDD''] \<subseteq> set (names joined) \<and>
    set (''globalid'' # col_list) \<subseteq> set (names pts) \<longrightarrow>
      (\<exists>fl. dfFlockLong joined pts = Inr fl)) \<and>
   (dfFlockLong joined pts = Inr fl \<longrightarrow>
      (\<exists>clean pivot. dfCleanMetadata joined = Inr clean \<and> dfFlockPivot pts = Inr pivot \<and>
         inner_join_result clean pivot ''globalid_y'' ''globalid'' ''globalid_y'' ''globalid'' fl))"
    (is "?A1 \<and> ?A2 \<and> ?B1 \<and> ?B2")
proof -
  have A1: ?A1
    by (simp add: sedfMetadataYYYY_ObservationPoint_def merge_inner_ok)
  have B1: ?B1
    using dfFlockLong_returns [of joined pts] by blast
  have "?A2 \<and> ?B2"
  proof (intro conjI impI)
  assume j: "sedfMetadataYYYY_ObservationPoint md op = Inr j"
  then have m: "merge_inner md op ''globalid'' ''parentglobalid'' = Inr j"
    by (simp add: sedfMetadataYYYY_ObservationPoint_def)
  show g: "inner_join_result md op ''globalid'' ''parentglobalid''
        (suffixed (overlap md op ''globalid'' ''parentglobalid'') ''_x'' ''globalid'')
        (suffixed (overlap md op ''globalid'' ''parentglobalid'') ''_y'' ''parentglobalid'') j"
    by (rule merge_inner_result [OF m]) simp
  assume s: "''globalid'' \<in> set (names op) \<and> ''parentglobalid'' \<notin> set (names md)"
  have "''globalid'' \<in> set (names md)" by (rule merge_inner_Inr(1) [OF m])
  with s have "suffixed (overlap md op ''globalid'' ''parentglobalid'') ''_x'' ''globalid'' = ''globalid_x''"
    and "suffixed (overlap md op ''globalid'' ''parentglobalid'') ''_y'' ''parentglobalid'' = ''parentglobalid''"
    by (auto simp: suffixed_def overlap_def)
  with g show "inner_join_result md op ''globalid'' ''parentglobalid'' ''globalid_x'' ''parentglobalid'' j"
    by simp
next
  assume f: "dfFlockLong joined pts = Inr fl"
  then obtain clean pivot where c: "dfCleanMetadata joined = Inr clean"
    and p: "dfFlockPivot pts = Inr pivot"
    and m: "merge_inner clean pivot ''globalid_y'' ''globalid'' = Inr fl"
    by (auto simp: dfFlockLong_def bindE_def split: sum.splits)
  from dfFlockPivot_Inr [OF p] have np: "names pivot = [''globalid'', ''shortName'', ''value'',
      ''scientificName'', ''fwsTaxonCode'', ''ITISTaxonCode'']" by blast
  have ov: "overlap clean pivot ''globalid_y'' ''globalid'' = []"
    by (simp add: overlap_def dfCleanMetadata_Inr(1) [OF c] np)
  have "inner_join_result clean pivot ''globalid_y'' ''globalid''
          (suffixed (overlap clean pivot ''globalid_y'' ''globalid'') ''_x'' ''globalid_y'')
          (suffixed (overlap clean pivot ''globalid_y'' ''globalid'') ''_y'' ''globalid'') fl"
    by (rule merge_inner_result [OF m]) simp
  then have "inner_join_result clean pivot ''globalid_y'' ''globalid'' ''globalid_y'' ''globalid'' fl"
    by (simp add: ov suffixed_def)
  with c p show "\<exists>clean pivot. dfCleanMetadata joined = Inr clean \<and> dfFlockPivot pts = Inr pivot \<and>
         inner_join_result clean pivot ''globalid_y'' ''globalid'' ''globalid_y'' ''globalid'' fl"
    by blast
qed
  then show ?thesis using A1 B1 by (intro conjI) blast+
qed

theorem inner_joins_keys_equal_witness:
  "(\<exists>j. sedfMetadataYYYY_ObservationPoint example_metadata example_points = Inr j \<and>
      ''globalid'' \<in> set (names example_points) \<and>
      ''parentglobalid'' \<notin> set (names example_metadata) \<and>
      length (rows j) = 1 \<and>
      (rows j ! 0) ''globalid_x'' = (rows j ! 0) ''parentglobalid'') \<and>
   (\<exists>fl. dfFlockLong example_neckband_joined example_counts = Inr fl \<and>
      length (rows fl) = 1 \<and>
      (rows fl ! 0) ''globalid_y'' = (rows fl ! 0) ''globalid'')"
proof -
  \<comment> \<open>cell 15 on the example\<close>
  have ov: "overlap example_metadata example_points ''globalid'' ''parentglobalid'' = [''globalid'']"
    by (simp add: overlap_def names_def example_metadata_def example_points_def)
  have k1: "''globalid'' \<in> set (names example_metadata)"
    and k2: "''parentglobalid'' \<in> set (names example_points)"
    and s1: "''globalid'' \<in> set (names example_points)"
    and s2: "''parentglobalid'' \<notin> set (names example_metadata)"
    by (simp_all add: names_def example_metadata_def example_points_def)
  have d1: "distinct (map fst (merged_header example_metadata example_points ''globalid''
                                ''parentglobalid''))"
    by (simp add: merged_header_def ov suffixed_def right_kept_def)
       (simp add: example_metadata_def example_points_def)
  from inner_joins_keys_equal [where md = example_metadata and op = example_points,
      THEN conjunct1, rule_format, OF conjI [OF k1 conjI [OF k2 d1]]]
  obtain j where
    j: "sedfMetadataYYYY_ObservationPoint example_metadata example_points = Inr j"
    by blast
  note r1 = inner_joins_keys_equal [where md = example_metadata and op = example_points and j = j,
      THEN conjunct2, THEN conjunct1, rule_format, OF j, THEN conjunct2, rule_format,
      OF conjI [OF s1 s2]]
  have len1: "length (rows j) = 1"
    using r1 by (simp add: inner_join_result_def example_metadata_def example_points_def)
  then have "rows j ! 0 \<in> set (rows j)" by simp
  with r1 have eq1: "(rows j ! 0) ''globalid_x'' = (rows j ! 0) ''parentglobalid''"
    unfolding inner_join_result_def by blast
  \<comment> \<open>cells 24 and 25 on the example\<close>
  have nj: "names example_neckband_joined = neckband_columns"
    by (simp add: example_neckband_joined_def names_def comp_def)
  have aL: "set [''globalid_x'', ''globalid_y'', ''SiteName'', ''ObserverText'', ''EffortDate_Text'',
         ''EffortTime'', ''LocationDescription'', ''LocationOther'', ''EffortNotes'',
         ''LatitudeDD'', ''LongitudeDD''] \<subseteq> set (names example_neckband_joined)"
    unfolding nj by (simp add: neckband_columns_def)
  have a: "set (''globalid'' # col_list) \<subseteq> set (names example_counts)"
    by (auto simp: names_def example_counts_def)
  from inner_joins_keys_equal [where joined = example_neckband_joined and pts = example_counts,
      THEN conjunct2, THEN conjunct2, THEN conjunct1, rule_format, OF conjI [OF aL a]]
  obtain fl where f: "dfFlockLong example_neckband_joined example_counts = Inr fl"
    by blast
  from inner_joins_keys_equal [where joined = example_neckband_joined and pts = example_counts
      and fl = fl, THEN conjunct2, THEN conjunct2, THEN conjunct2, rule_format, OF f]
  obtain clean pivot where c: "dfCleanMetadata example_neckband_joined = Inr clean"
    and p: "dfFlockPivot example_counts = Inr pivot"
    and r2: "inner_join_result clean pivot ''globalid_y'' ''globalid'' ''globalid_y'' ''globalid'' fl"
    by blast
  note nc = dfCleanMetadata_Inr [OF c]
  from dfFlockPivot_Inr [OF p] obtain long where
    l: "dfFlockPivotTemp example_counts = Inr long" and t: "taxonomy long = Inr pivot"
    by blast
  note nl = dfFlockPivotTemp_Inr [OF l]
  have one: "rows long = [long_entry (rows example_counts ! 0) ''Dusky'']"
    unfolding nl(2)
    by (simp add: example_counts_def flock_shorts_def long_entry_def col_list_def ne_zero_def
          notnull_def)
  have "''shortName'' \<in> set (names long)" by (simp add: nl(1))
  note tr = taxonomy_run [OF this]
  have rp: "map (\<lambda>b. b ''globalid'') (rows pivot) = [StrV ''p1'']"
    using t unfolding tr by (auto simp: one long_entry_def example_counts_def)
  have cnt: "length (filter (\<lambda>b. a = b ''globalid'') (rows pivot)) = (if a = StrV ''p1'' then 1 else 0)"
    for a
    using rp by (cases "rows pivot") auto
  have len2: "length (rows fl) = 1"
    using r2 unfolding inner_join_result_def
    by (simp add: cnt nc(2) restrict_row_def example_neckband_joined_def example_neckband_rows_def)
  then have "rows fl ! 0 \<in> set (rows fl)" by simp
  with r2 have eq2: "(rows fl ! 0) ''globalid_y'' = (rows fl ! 0) ''globalid''"
    unfolding inner_join_result_def by blast
  show ?thesis
    using j s1 s2 len1 eq1 f len2 eq2 by blast
qed

section \<open>The long flock table\<close>

text \<open>
  C3.  On an observation table that has \<open>globalid\<close> and the 17 count fields, cell 22 runs
  without error.  Every row of the long table it returns has a count under \<open>value\<close> that
  is not null and not zero, and is the count of one species at one observation point.
  When the observation points have distinct identifiers, a point and a species whose
  count is null or zero have no row in the long table.
\<close>

theorem flock_long_counts_present:
  assumes cols: "set (''globalid'' # col_list) \<subseteq> set (names op)"
  shows "\<exists>long. dfFlockPivotTemp op = Inr long \<and>
           (\<forall>e \<in> set (rows long).
              e ''value'' \<noteq> NA \<and> e ''value'' \<noteq> IntV 0 \<and> e ''value'' \<noteq> FltV 0 \<and>
              (\<exists>r \<in> set (rows op). \<exists>s. s @ ''Count'' \<in> set col_list \<and>
                 e ''globalid'' = r ''globalid'' \<and> e ''shortName'' = StrV s \<and>
                 e ''value'' = r (s @ ''Count''))) \<and>
           (distinct (map (\<lambda>r. r ''globalid'') (rows op)) \<longrightarrow>
              (\<forall>r \<in> set (rows op). \<forall>s. s @ ''Count'' \<in> set col_list \<longrightarrow>
                 r (s @ ''Count'') = NA \<or> r (s @ ''Count'') = IntV 0 \<longrightarrow>
                 \<not> (\<exists>e \<in> set (rows long).
                        e ''globalid'' = r ''globalid'' \<and> e ''shortName'' = StrV s)))"
proof -
  from dfFlockPivotTemp_rows [OF cols] obtain long where
    run: "dfFlockPivotTemp op = Inr long" and
    rws: "rows long =
             filter (\<lambda>e. list_all (\<lambda>c. notnull (e c)) [''globalid'', ''shortName'', ''value''])
               (filter (\<lambda>e. ne_zero (e ''value''))
                  (concat (map (\<lambda>r. map (long_entry r) flock_shorts) (rows op))))"
    by blast
  have origin: "\<exists>r \<in> set (rows op). \<exists>s \<in> set flock_shorts. e = long_entry r s"
    if "e \<in> set (rows long)" for e
    using that unfolding rws by auto
  have present: "e ''value'' \<noteq> NA \<and> e ''value'' \<noteq> IntV 0 \<and> e ''value'' \<noteq> FltV 0"
    if "e \<in> set (rows long)" for e
    using that unfolding rws by (simp add: notnull_def ne_zero_iff)
  have fields: "long_entry r s ''globalid'' = r ''globalid''"
    "long_entry r s ''shortName'' = StrV s" "long_entry r s ''value'' = r (s @ ''Count'')" for r s
    by (simp_all add: long_entry_def)
  have part1: "e ''value'' \<noteq> NA \<and> e ''value'' \<noteq> IntV 0 \<and> e ''value'' \<noteq> FltV 0 \<and>
              (\<exists>r \<in> set (rows op). \<exists>s. s @ ''Count'' \<in> set col_list \<and>
                 e ''globalid'' = r ''globalid'' \<and> e ''shortName'' = StrV s \<and>
                 e ''value'' = r (s @ ''Count''))"
    if e: "e \<in> set (rows long)" for e
  proof -
    from origin [OF e] obtain r s where "r \<in> set (rows op)" "s \<in> set flock_shorts"
      and "e = long_entry r s" by blast
    moreover from this(2) have "s @ ''Count'' \<in> set col_list"
      by (simp add: col_list_shorts)
    ultimately show ?thesis using present [OF e] fields by blast
  qed
  have part2: "\<not> (\<exists>e \<in> set (rows long). e ''globalid'' = r ''globalid'' \<and> e ''shortName'' = StrV s)"
    if d: "distinct (map (\<lambda>r. r ''globalid'') (rows op))" and r: "r \<in> set (rows op)"
      and z: "r (s @ ''Count'') = NA \<or> r (s @ ''Count'') = IntV 0" for r s
  proof
    assume "\<exists>e \<in> set (rows long). e ''globalid'' = r ''globalid'' \<and> e ''shortName'' = StrV s"
    then obtain e where e: "e \<in> set (rows long)" and g: "e ''globalid'' = r ''globalid''"
      and n: "e ''shortName'' = StrV s" by blast
    from origin [OF e] obtain r' s' where r': "r' \<in> set (rows op)"
      and ee: "e = long_entry r' s'" by blast
    have "r' ''globalid'' = r ''globalid''" using g ee fields by simp
    then have "r' = r"
      using d r r' by (meson distinct_map inj_onD)
    moreover have "s' = s" using n ee fields by simp
    ultimately have "e ''value'' = r (s @ ''Count'')" using ee fields by simp
    with z present [OF e] show False by auto
  qed
  show ?thesis
    using run part1 part2 by blast
qed

theorem flock_long_counts_present_witness:
  "set (''globalid'' # col_list) \<subseteq> set (names example_counts) \<and>
   distinct (map (\<lambda>r. r ''globalid'') (rows example_counts)) \<and>
   (\<exists>long. dfFlockPivotTemp example_counts = Inr long \<and>
      length (rows long) = 1 \<and>
      (rows long ! 0) ''shortName'' = StrV ''Dusky'' \<and>
      (rows long ! 0) ''value'' = IntV 5 \<and>
      (rows long ! 0) ''value'' \<noteq> NA \<and>
      list_all (\<lambda>e. \<not> (e ''globalid'' = StrV ''p1'' \<and> e ''shortName'' = StrV ''Wusky''))
        (rows long))"
proof -
  have a: "set (''globalid'' # col_list) \<subseteq> set (names example_counts)"
    by (auto simp: names_def example_counts_def)
  have d: "distinct (map (\<lambda>r. r ''globalid'') (rows example_counts))"
    by (simp add: example_counts_def)
  from flock_long_counts_present [OF a] obtain long where
    run: "dfFlockPivotTemp example_counts = Inr long" and
    p1: "\<forall>e \<in> set (rows long). e ''value'' \<noteq> NA \<and> e ''value'' \<noteq> IntV 0 \<and> e ''value'' \<noteq> FltV 0 \<and>
              (\<exists>r \<in> set (rows example_counts). \<exists>s. s @ ''Count'' \<in> set col_list \<and>
                 e ''globalid'' = r ''globalid'' \<and> e ''shortName'' = StrV s \<and>
                 e ''value'' = r (s @ ''Count''))" and
    p2: "distinct (map (\<lambda>r. r ''globalid'') (rows example_counts)) \<longrightarrow>
              (\<forall>r \<in> set (rows example_counts). \<forall>s. s @ ''Count'' \<in> set col_list \<longrightarrow>
                 r (s @ ''Count'') = NA \<or> r (s @ ''Count'') = IntV 0 \<longrightarrow>
                 \<not> (\<exists>e \<in> set (rows long).
                        e ''globalid'' = r ''globalid'' \<and> e ''shortName'' = StrV s))"
    by blast
  from dfFlockPivotTemp_rows [OF a] run have
    rws: "rows long =
             filter (\<lambda>e. list_all (\<lambda>c. notnull (e c)) [''globalid'', ''shortName'', ''value''])
               (filter (\<lambda>e. ne_zero (e ''value''))
                  (concat (map (\<lambda>r. map (long_entry r) flock_shorts) (rows example_counts))))"
    by auto
  have one: "rows long = [long_entry (rows example_counts ! 0) ''Dusky'']"
    unfolding rws
    by (simp add: example_counts_def flock_shorts_def long_entry_def col_list_def ne_zero_def
          notnull_def)
  have len: "length (rows long) = 1" using one by simp
  have v: "(rows long ! 0) ''shortName'' = StrV ''Dusky''" "(rows long ! 0) ''value'' = IntV 5"
    unfolding one by (simp_all add: long_entry_def example_counts_def)
  have nn: "(rows long ! 0) ''value'' \<noteq> NA"
    using p1 len by (metis nth_mem zero_less_one)
  have w: "''Wusky'' @ ''Count'' \<in> set col_list" by (simp add: col_list_def)
  have z: "(rows example_counts ! 0) (''Wusky'' @ ''Count'') = IntV 0"
    by (simp add: example_counts_def col_list_def)
  have r0: "rows example_counts ! 0 \<in> set (rows example_counts)"
    by (simp add: example_counts_def)
  have g0: "(rows example_counts ! 0) ''globalid'' = StrV ''p1''"
    by (simp add: example_counts_def)
  from p2 d r0 w z
  have "\<not> (\<exists>e \<in> set (rows long). e ''globalid'' = (rows example_counts ! 0) ''globalid'' \<and>
              e ''shortName'' = StrV ''Wusky'')"
    by blast
  then have nw: "list_all (\<lambda>e. \<not> (e ''globalid'' = StrV ''p1'' \<and> e ''shortName'' = StrV ''Wusky''))
        (rows long)"
    unfolding g0 by (simp add: list_all_iff)
  show ?thesis using a d run len v nn nw by blast
qed

section \<open>Taxonomy enrichment\<close>

text \<open>
  C10.  Running the three dictionary look-ups of cell 23 on the table they have just
  produced gives that same table: header and rows are identical to those after one run.
  On a table without the \<open>shortName\<close> field the first run already raises \<open>KeyError\<close>, and
  so does the attempt to run twice.
\<close>

theorem taxonomy_idempotent: "bindE (taxonomy df) taxonomy = taxonomy df"
proof (cases "''shortName'' \<in> set (names df)")
  case False
  then have "taxonomy df = Inl (KeyError ''shortName'')"
    by (simp add: taxonomy_def map_column_missing bindE_Inl)
  then show ?thesis by (simp add: bindE_Inl)
next
  case True
  let ?g = "\<lambda>r :: row. r(''scientificName'' := map_dict sciname_dict (r ''shortName''),
                            ''fwsTaxonCode'' := map_dict FWSTaxonCode_dict (r ''shortName''),
                            ''ITISTaxonCode'' := map_dict ITIS_dict (r ''shortName''))"
  let ?H = "upd_header ''ITISTaxonCode'' object
                     (upd_header ''fwsTaxonCode'' object
                       (upd_header ''scientificName'' object (header df)))"
  let ?t = "\<lparr>header = ?H, rows = map ?g (rows df)\<rparr>"
  have once: "taxonomy df = Inr ?t"
    by (rule taxonomy_run [OF True])
  have "set (names df) \<subseteq> set (names ?t)"
    by (auto simp: names_def map_fst_upd_header simp del: set_map)
  then have "''shortName'' \<in> set (names ?t)" using True by blast
  from taxonomy_run [OF this] have twice: "taxonomy ?t =
     Inr \<lparr>header = upd_header ''ITISTaxonCode'' object
                     (upd_header ''fwsTaxonCode'' object
                       (upd_header ''scientificName'' object ?H)),
          rows = map ?g (map ?g (rows df))\<rparr>"
    by simp
  have s: "''scientificName'' \<in> set (map fst ?H) \<and> (\<forall>u. (''scientificName'', u) \<in> set ?H \<longrightarrow> u = object)"
    by (intro upd_header_keeps_typed upd_header_typed)
  have f: "''fwsTaxonCode'' \<in> set (map fst ?H) \<and> (\<forall>u. (''fwsTaxonCode'', u) \<in> set ?H \<longrightarrow> u = object)"
    by (intro upd_header_keeps_typed upd_header_typed)
  have i: "''ITISTaxonCode'' \<in> set (map fst ?H) \<and> (\<forall>u. (''ITISTaxonCode'', u) \<in> set ?H \<longrightarrow> u = object)"
    by (intro upd_header_typed)
  have hdr: "upd_header ''ITISTaxonCode'' object
                     (upd_header ''fwsTaxonCode'' object
                       (upd_header ''scientificName'' object ?H)) = ?H"
    by (simp only: upd_header_id [OF s] upd_header_id [OF f] upd_header_id [OF i])
  have rws: "map ?g (map ?g (rows df)) = map ?g (rows df)"
    by (simp add: fun_eq_iff)
  show ?thesis
    unfolding once bindE_Inr twice hdr rws ..
qed

theorem taxonomy_idempotent_witness:
  "bindE (taxonomy example_long) taxonomy = taxonomy example_long \<and>
   (\<exists>t. taxonomy example_long = Inr t \<and>
      (rows t ! 0) ''scientificName'' = StrV ''Branta canadensis occidentalis'' \<and>
      (rows t ! 0) ''ITISTaxonCode'' = StrV ''175006'' \<and>
      (rows t ! 1) ''fwsTaxonCode'' = StrV [] \<and>
      (rows t ! 2) ''scientificName'' = NA)"
proof -
  have n: "''shortName'' \<in> set (names example_long)"
    by (simp add: names_def example_long_def)
  note run = taxonomy_run [OF n]
  have "\<exists>t. taxonomy example_long = Inr t \<and>
      (rows t ! 0) ''scientificName'' = StrV ''Branta canadensis occidentalis'' \<and>
      (rows t ! 0) ''ITISTaxonCode'' = StrV ''175006'' \<and>
      (rows t ! 1) ''fwsTaxonCode'' = StrV [] \<and>
      (rows t ! 2) ''scientificName'' = NA"
    unfolding run
    by (simp add: example_long_def map_dict_def sciname_dict_def FWSTaxonCode_dict_def
          ITIS_dict_def)
  then show ?thesis
    using taxonomy_idempotent [of example_long] by blast
qed

section \<open>Time zone conversion\<close>

text \<open>
  C7.  \<open>change_timezone_of_field\<close> on a field that is already zone-aware raises the
  \<open>TypeError\<close> of \<open>tz_localize\<close> and leaves the table as it was: nothing is localised or
  converted, no field is added.  Whenever the function returns normally, the field was
  a naive timestamp field of the table.  On a naive timestamp field, with source zone
  UTC and a target zone that the zone table knows, it does return normally.
\<close>

theorem localization_needs_naive:
  "(src \<in> set (names df) \<and> col_dtype df src = datetime64tz z \<longrightarrow>
      change_timezone_of_field db df src sfx stz ntz =
        (Some (TypeError ''Already tz-aware, use tz_convert to convert.''), df)) \<and>
   (fst (change_timezone_of_field db df src sfx stz ntz) = None \<longrightarrow>
      src \<in> set (names df) \<and> col_dtype df src = datetime64) \<and>
   (src \<in> set (names df) \<and> col_dtype df src = datetime64 \<and> zone_info db ntz \<noteq> None \<longrightarrow>
      fst (change_timezone_of_field db df src sfx ''UTC'' ntz) = None)"
proof (intro conjI impI)
  assume a: "src \<in> set (names df) \<and> col_dtype df src = datetime64tz z"
  then have m: "missing [src] df = []" by (simp add: missing_Nil_iff)
  have "dt_tz_localize db stz (series df src) =
          Inl (TypeError ''Already tz-aware, use tz_convert to convert.'')"
    using a by (simp add: dt_tz_localize_def series_def)
  then show "change_timezone_of_field db df src sfx stz ntz =
        (Some (TypeError ''Already tz-aware, use tz_convert to convert.''), df)"
    unfolding change_timezone_of_field_def m by simp
next
  assume n: "fst (change_timezone_of_field db df src sfx stz ntz) = None"
  obtain df' where "change_timezone_of_field db df src sfx stz ntz = (None, df')"
    using n by (cases "change_timezone_of_field db df src sfx stz ntz") simp
  from change_timezone_None [OF this]
  show "src \<in> set (names df)" and "col_dtype df src = datetime64" by blast+
next
  assume "src \<in> set (names df) \<and> col_dtype df src = datetime64 \<and> zone_info db ntz \<noteq> None"
  then show "fst (change_timezone_of_field db df src sfx ''UTC'' ntz) = None"
    by (intro change_timezone_from_UTC) simp_all
qed

theorem localization_needs_naive_witness:
  "''EditDate'' \<in> set (names example_stamps) \<and>
   col_dtype example_stamps ''EditDate'' = datetime64tz ''UTC'' \<and>
   change_timezone_of_field example_tzdb example_stamps ''EditDate'' ''_Pacific'' ''UTC'' ''Etc/GMT+8'' =
     (Some (TypeError ''Already tz-aware, use tz_convert to convert.''), example_stamps) \<and>
   ''CreationDate'' \<in> set (names example_stamps) \<and>
   col_dtype example_stamps ''CreationDate'' = datetime64 \<and>
   zone_info example_tzdb ''Etc/GMT+8'' \<noteq> None \<and>
   fst (change_timezone_of_field example_tzdb example_stamps ''CreationDate'' ''_Pacific'' ''UTC''
          ''Etc/GMT+8'') = None"
proof -
  have a: "''EditDate'' \<in> set (names example_stamps)"
    and b: "col_dtype example_stamps ''EditDate'' = datetime64tz ''UTC''"
    and c: "''CreationDate'' \<in> set (names example_stamps)"
    and d: "col_dtype example_stamps ''CreationDate'' = datetime64"
    by (simp_all add: names_def col_dtype_def example_stamps_def)
  have e: "zone_info example_tzdb ''Etc/GMT+8'' \<noteq> None"
    by (simp add: zone_info_def example_tzdb_def)
  note t1 = localization_needs_naive [of "''EditDate''" example_stamps "''UTC''" example_tzdb
      "''_Pacific''" "''UTC''" "''Etc/GMT+8''"]
  note t2 = localization_needs_naive [of "''CreationDate''" example_stamps "''UTC''" example_tzdb
      "''_Pacific''" "''UTC''" "''Etc/GMT+8''"]
  from t1 a b have
    "change_timezone_of_field example_tzdb example_stamps ''EditDate'' ''_Pacific'' ''UTC'' ''Etc/GMT+8'' =
     (Some (TypeError ''Already tz-aware, use tz_convert to convert.''), example_stamps)"
    by blast
  moreover from t2 c d e have
    "fst (change_timezone_of_field example_tzdb example_stamps ''CreationDate'' ''_Pacific'' ''UTC''
          ''Etc/GMT+8'') = None"
    by blast
  ultimately show ?thesis using a b c d e by blast
qed

text \<open>
  C4.  The claim that the source field is left as it was fails.  With source zone UTC
  the creation time of the example table is a naive field before the call and a
  zone-aware field (\<open>datetime64[ns, UTC]\<close>) after it; with a source zone eight hours
  behind UTC the stored values change as well.
\<close>

theorem source_field_kept_counterexample:
  "fst (change_timezone_of_field example_tzdb example_stamps ''CreationDate'' ''_Pacific'' ''UTC''
          ''Etc/GMT+8'') = None \<and>
   series example_stamps ''CreationDate'' = (datetime64, [TsV 1630454400000000000, NA]) \<and>
   series (snd (change_timezone_of_field example_tzdb example_stamps ''CreationDate'' ''_Pacific''
                  ''UTC'' ''Etc/GMT+8'')) ''CreationDate'' =
     (datetime64tz ''UTC'', [TsV 1630454400000000000, NA]) \<and>
   series (snd (change_timezone_of_field example_tzdb example_stamps ''CreationDate'' ''_Pacific''
                  ''UTC'' ''Etc/GMT+8'')) ''CreationDate'' \<noteq>
     series example_stamps ''CreationDate'' \<and>
   series (snd (change_timezone_of_field example_tzdb example_stamps ''CreationDate'' ''_UTC''
                  ''Etc/GMT+8'' ''UTC'')) ''CreationDate'' =
     (datetime64tz ''Etc/GMT+8'', [TsV 1630483200000000000, NA])"
proof -
  have s: "series example_stamps ''CreationDate'' = (datetime64, [TsV 1630454400000000000, NA])"
    by (simp add: series_def col_dtype_def example_stamps_def)
  have n: "length (rows example_stamps) = 2"
    by (simp add: example_stamps_def)
  have keep: "series (set_series c' (t', [x', y']) (set_series ''CreationDate'' (t, [x, y]) example_stamps))
                 ''CreationDate'' = (t, [x, y])"
    if "''CreationDate'' \<noteq> c'" for c' t' x' y' t x y
  proof -
    have a: "length (snd (t, [x, y])) = length (rows example_stamps)" using n by simp
    have b: "length (snd (t', [x', y'])) =
               length (rows (set_series ''CreationDate'' (t, [x, y]) example_stamps))"
      using n by (simp add: length_rows_set_series [OF a])
    show ?thesis
      using series_set_series_other [OF that b] series_set_series_same [OF a] by simp
  qed
  show ?thesis
    unfolding change_timezone_example change_timezone_example_west
    by (simp add: s keep)
qed

text \<open>
  C4, as the code has it.  Whatever the outcome of \<open>change_timezone_of_field\<close>, the table
  keeps every field and every row it had, and no field other than the source field and
  the field named source field plus suffix is altered, in dtype or in value.

  Whenever the function raises, no field is added and the field named source field plus
  suffix, if the table has one, is as it was; the source field is as it was, unless the
  only failure is a target zone that the zone table does not know: then the source field
  was naive and has already been overwritten by its localisation to the source zone.

  Whenever the function returns normally, with a suffix that is not empty: the source
  field was a naive timestamp field; the table has the field named source field plus
  suffix, appended when the table had no field of that name and overwritten when it had
  one; that field is zone-aware in the target zone and holds, row by row, the same instant
  as the source field after the call; the source field is now zone-aware in the source
  zone, each of its values being the localisation of the value before (for source zone
  UTC the stored timestamp itself).
\<close>

theorem change_timezone_adds_field:
  assumes run: "change_timezone_of_field db df src sfx stz ntz = (e, df')"
  shows "set (names df) \<subseteq> set (names df') \<and>
         length (rows df') = length (rows df) \<and>
         (\<forall>c. c \<noteq> src \<and> c \<noteq> src @ sfx \<longrightarrow> series df' c = series df c) \<and>
         (e \<noteq> None \<longrightarrow>
            names df' = names df \<and>
            (sfx \<noteq> [] \<longrightarrow> series df' (src @ sfx) = series df (src @ sfx)) \<and>
            (series df' src = series df src \<or>
             zone_info db ntz = None \<and> col_dtype df src = datetime64 \<and>
             col_dtype df' src = datetime64tz stz \<and>
             (\<exists>f. zone_info db stz = Some f \<and>
                  (\<forall>i < length (rows df).
                     localize_cell f ((rows df ! i) src) = Inr ((rows df' ! i) src))))) \<and>
         (e = None \<and> sfx \<noteq> [] \<longrightarrow>
            names df' = (if src @ sfx \<in> set (names df) then names df else names df @ [src @ sfx]) \<and>
            src \<in> set (names df') \<and>
            col_dtype df' (src @ sfx) = datetime64tz ntz \<and>
            col_dtype df src = datetime64 \<and> col_dtype df' src = datetime64tz stz \<and>
            (\<forall>i < length (rows df).
               (rows df' ! i) (src @ sfx) = (rows df' ! i) src \<and>
               (\<exists>f. zone_info db stz = Some f \<and>
                    localize_cell f ((rows df ! i) src) = Inr ((rows df' ! i) src)) \<and>
               (stz = ''UTC'' \<longrightarrow>
                  (rows df' ! i) src = (case (rows df ! i) src of TsV w \<Rightarrow> TsV w | _ \<Rightarrow> NA)) \<and>
               (\<forall>c. c \<noteq> src \<and> c \<noteq> src @ sfx \<longrightarrow> (rows df' ! i) c = (rows df ! i) c)) \<and>
            (\<forall>c. c \<noteq> src \<and> c \<noteq> src @ sfx \<longrightarrow> col_dtype df' c = col_dtype df c))"
    (is "?A \<and> ?B \<and> ?C \<and> ?D \<and> ?E")
proof (cases e)
  case (Some err)
  from change_timezone_raises [OF run [unfolded Some]]
  consider (same) "df' = df"
    | (half) f xs where "src \<in> set (names df)" "col_dtype df src = datetime64"
        "zone_info db stz = Some f" "zone_info db ntz = None"
        "mapE (localize_cell f) (map (\<lambda>r. r src) (rows df)) = Inr xs"
        "df' = set_series src (datetime64tz stz, xs) df"
    by blast
  then show ?thesis
  proof cases
    case same
    have ?A ?B ?C ?D ?E using same Some by simp_all
    then show ?thesis by (intro conjI)
  next
    case half
    have len: "length xs = length (rows df)"
      and each: "\<forall>i < length (rows df). localize_cell f ((rows df ! i) src) = Inr (xs ! i)"
      using mapE_Inr_nth [OF half(5)] by simp_all
    have l1: "length (snd (datetime64tz stz, xs)) = length (rows df)" using len by simp
    have n: "names df' = names df"
      using half(1) by (simp add: half(6) names_set_series)
    have r: "length (rows df') = length (rows df)"
      "\<forall>i < length (rows df). rows df' ! i = (rows df ! i)(src := xs ! i)"
      using rows_set_series [OF l1, of src] by (simp_all add: half(6))
    have other: "series df' c = series df c" if "c \<noteq> src" for c
      unfolding half(6) using that l1 by (rule series_set_series_other)
    have t: "col_dtype df' src = datetime64tz stz"
      by (simp add: half(6) col_dtype_set_series_same)
    have loc: "\<forall>i < length (rows df). localize_cell f ((rows df ! i) src) = Inr ((rows df' ! i) src)"
      using each r by simp
    have new: "sfx \<noteq> [] \<longrightarrow> series df' (src @ sfx) = series df (src @ sfx)"
      using other [of "src @ sfx"] by simp
    have A: ?A using n by simp
    have B: ?B using r(1) .
    have C: ?C using other by simp
    have "\<exists>f. zone_info db stz = Some f \<and>
             (\<forall>i < length (rows df). localize_cell f ((rows df ! i) src) = Inr ((rows df' ! i) src))"
      using half(3) loc by blast
    then have D: ?D using n new half(2,4) t by blast
    have E: ?E using Some by simp
    show ?thesis by (intro conjI A B C D E)
  qed
next
  case None
  from change_timezone_None [OF run [unfolded None]] obtain f xs where
    src: "src \<in> set (names df)" and dt: "col_dtype df src = datetime64" and
    zi: "zone_info db stz = Some f" and
    loc: "mapE (localize_cell f) (map (\<lambda>r. r src) (rows df)) = Inr xs" and
    df': "df' = set_series (src @ sfx) (datetime64tz ntz, xs)
                   (set_series src (datetime64tz stz, xs) df)"
    by blast
  define df1 where "df1 = set_series src (datetime64tz stz, xs) df"
  have len: "length xs = length (rows df)"
    and each: "\<forall>i < length (rows df). localize_cell f ((rows df ! i) src) = Inr (xs ! i)"
    using mapE_Inr_nth [OF loc] by simp_all
  have l1: "length (snd (datetime64tz stz, xs)) = length (rows df)" using len by simp
  have n1: "names df1 = names df"
    using src by (simp add: df1_def names_set_series)
  have r1: "length (rows df1) = length (rows df)"
    "\<forall>i < length (rows df). rows df1 ! i = (rows df ! i)(src := xs ! i)"
    using rows_set_series [OF l1, of src] by (simp_all add: df1_def)
  have l2: "length (snd (datetime64tz ntz, xs)) = length (rows df1)" using len r1 by simp
  have d: "df' = set_series (src @ sfx) (datetime64tz ntz, xs) df1"
    by (simp add: df' df1_def)
  have r2: "length (rows df') = length (rows df)"
    "\<forall>i < length (rows df). rows df' ! i = (rows df ! i)(src := xs ! i, src @ sfx := xs ! i)"
    using rows_set_series [OF l2, of "src @ sfx"] r1 by (simp_all add: d)
  have names: "names df' = (if src @ sfx \<in> set (names df) then names df else names df @ [src @ sfx])"
    by (simp add: d names_set_series n1)
  have sub: "set (names df) \<subseteq> set (names df')"
    using names by (auto split: if_splits)
  have ser: "series df' c = series df c" if "c \<noteq> src \<and> c \<noteq> src @ sfx" for c
  proof -
    have "series df' c = series df1 c"
      unfolding d using that l2 by (intro series_set_series_other) simp_all
    also have "\<dots> = series df c"
      unfolding df1_def using that l1 by (intro series_set_series_other) simp_all
    finally show ?thesis .
  qed
  have t_new: "col_dtype df' (src @ sfx) = datetime64tz ntz"
    by (simp add: d col_dtype_set_series_same)
  have t_src: "col_dtype df' src = datetime64tz stz" if "sfx \<noteq> []"
    using that by (simp add: d df1_def col_dtype_set_series_other col_dtype_set_series_same)
  have t_other: "col_dtype df' c = col_dtype df c" if "c \<noteq> src \<and> c \<noteq> src @ sfx" for c
    using that by (simp add: d df1_def col_dtype_set_series_other)
  have utc: "(rows df' ! i) src = (case (rows df ! i) src of TsV w \<Rightarrow> TsV w | _ \<Rightarrow> NA)"
    if i: "i < length (rows df)" and u: "stz = ''UTC''" for i
  proof -
    have "f = (\<lambda>w. Some w)" using zi u by (simp add: zone_info_def)
    with each i have "(case (rows df ! i) src of TsV w \<Rightarrow> TsV w | _ \<Rightarrow> NA) = xs ! i"
      by (auto simp: localize_cell_def split: cell.splits)
    then show ?thesis using r2 i by simp
  qed
  have rows: "(rows df' ! i) (src @ sfx) = (rows df' ! i) src \<and>
            (\<exists>f. zone_info db stz = Some f \<and>
                 localize_cell f ((rows df ! i) src) = Inr ((rows df' ! i) src)) \<and>
            (stz = ''UTC'' \<longrightarrow>
               (rows df' ! i) src = (case (rows df ! i) src of TsV w \<Rightarrow> TsV w | _ \<Rightarrow> NA)) \<and>
            (\<forall>c. c \<noteq> src \<and> c \<noteq> src @ sfx \<longrightarrow> (rows df' ! i) c = (rows df ! i) c)"
    if i: "i < length (rows df)" for i
    using r2 i zi each utc [OF i] by simp
  have in': "src \<in> set (names df')" using names src by (simp split: if_splits)
  have C: ?C using ser by blast
  have D: ?D using None by simp
  have E: ?E
  proof (intro impI conjI allI)
    fix i assume "e = None \<and> sfx \<noteq> []" "i < length (rows df)"
    note ri = rows [OF this(2)]
    from ri show "(rows df' ! i) (src @ sfx) = (rows df' ! i) src" by blast
    from ri show "\<exists>f. zone_info db stz = Some f \<and>
                 localize_cell f ((rows df ! i) src) = Inr ((rows df' ! i) src)" by blast
    { assume "stz = ''UTC''"
      with ri show "(rows df' ! i) src = (case (rows df ! i) src of TsV w \<Rightarrow> TsV w | _ \<Rightarrow> NA)"
        by blast }
    { fix c assume "c \<noteq> src \<and> c \<noteq> src @ sfx"
      with ri show "(rows df' ! i) c = (rows df ! i) c" by blast }
  qed (use names in' t_new dt t_src t_other in simp_all)
  show ?thesis by (intro conjI sub r2(1) C D E)
qed

theorem change_timezone_adds_field_witness:
  "(\<exists>df'. change_timezone_of_field example_tzdb example_stamps ''CreationDate'' ''_Pacific'' ''UTC''
            ''Etc/GMT+8'' = (None, df') \<and>
      names df' = [''globalid'', ''CreationDate'', ''EditDate'', ''CreationDate_Pacific''] \<and>
      col_dtype df' ''CreationDate_Pacific'' = datetime64tz ''Etc/GMT+8'' \<and>
      col_dtype df' ''CreationDate'' = datetime64tz ''UTC'' \<and>
      series df' ''EditDate'' = series example_stamps ''EditDate'' \<and>
      (rows df' ! 0) ''CreationDate_Pacific'' = TsV 1630454400000000000 \<and>
      (rows df' ! 0) ''CreationDate'' = TsV 1630454400000000000 \<and>
      (rows df' ! 0) ''EditDate'' = TsV 1630458000000000000 \<and>
      (rows df' ! 1) ''CreationDate_Pacific'' = NA) \<and>
   (\<exists>df'. change_timezone_of_field example_tzdb example_stamps ''CreationDate'' ''_Pacific'' ''UTC''
            ''US/Pacific'' = (Some (UnknownTimeZoneError ''US/Pacific''), df') \<and>
      names df' = [''globalid'', ''CreationDate'', ''EditDate''] \<and>
      length (rows df') = 2 \<and>
      series df' ''EditDate'' = series example_stamps ''EditDate'' \<and>
      col_dtype example_stamps ''CreationDate'' = datetime64 \<and>
      col_dtype df' ''CreationDate'' = datetime64tz ''UTC'')"
proof -
  obtain df' where run: "change_timezone_of_field example_tzdb example_stamps ''CreationDate''
       ''_Pacific'' ''UTC'' ''Etc/GMT+8'' = (None, df')"
    using change_timezone_example by blast
  have sfx: "''_Pacific'' \<noteq> []" by simp
  note ok = change_timezone_adds_field [OF run, THEN conjunct2, THEN conjunct2, THEN conjunct2,
      THEN conjunct2, rule_format, OF conjI [OF refl sfx]]
  note others = change_timezone_adds_field [OF run, THEN conjunct2, THEN conjunct2, THEN conjunct1,
      rule_format]
  have n: "names df' = [''globalid'', ''CreationDate'', ''EditDate'', ''CreationDate_Pacific'']"
    using ok [THEN conjunct1] by (simp add: names_def example_stamps_def)
  have ty: "col_dtype df' ''CreationDate_Pacific'' = datetime64tz ''Etc/GMT+8''"
    "col_dtype df' ''CreationDate'' = datetime64tz ''UTC''"
    using ok [THEN conjunct2, THEN conjunct2, THEN conjunct1]
      ok [THEN conjunct2, THEN conjunct2, THEN conjunct2, THEN conjunct2, THEN conjunct1]
    by simp_all
  have ed: "series df' ''EditDate'' = series example_stamps ''EditDate''"
    by (rule others) simp
  have len: "length (rows example_stamps) = 2" by (simp add: example_stamps_def)
  note r = ok [THEN conjunct2, THEN conjunct2, THEN conjunct2, THEN conjunct2, THEN conjunct2,
      THEN conjunct1]
  have v0: "(rows df' ! 0) ''CreationDate_Pacific'' = TsV 1630454400000000000"
    "(rows df' ! 0) ''CreationDate'' = TsV 1630454400000000000"
    "(rows df' ! 0) ''EditDate'' = TsV 1630458000000000000"
    using r [rule_format, of 0] len by (simp_all add: example_stamps_def)
  have v1: "(rows df' ! 1) ''CreationDate_Pacific'' = NA"
    using r [rule_format, of 1] len by (simp add: example_stamps_def)
  \<comment> \<open>a target zone that the zone table does not know\<close>
  have m: "missing [''CreationDate''] example_stamps = []"
    by (simp add: missing_def names_def example_stamps_def)
  have s: "series example_stamps ''CreationDate'' = (datetime64, [TsV 1630454400000000000, NA])"
    by (simp add: series_def col_dtype_def example_stamps_def)
  have l: "dt_tz_localize example_tzdb ''UTC'' (datetime64, [TsV 1630454400000000000, NA]) =
             Inr (datetime64tz ''UTC'', [TsV 1630454400000000000, NA])"
    by (simp add: dt_tz_localize_def zone_info_def localize_cell_def bindE_def)
  have "length (snd (datetime64tz ''UTC'', [TsV 1630454400000000000, NA])) =
          length (rows example_stamps)"
    by (simp add: example_stamps_def)
  note s1 = series_set_series_same [OF this, of "''CreationDate''"]
  have c: "dt_tz_convert example_tzdb ''US/Pacific'' (datetime64tz ''UTC'', [TsV 1630454400000000000, NA]) =
             Inl (UnknownTimeZoneError ''US/Pacific'')"
    by (simp add: dt_tz_convert_def zone_info_def example_tzdb_def)
  have "\<exists>df''. change_timezone_of_field example_tzdb example_stamps ''CreationDate'' ''_Pacific''
           ''UTC'' ''US/Pacific'' = (Some (UnknownTimeZoneError ''US/Pacific''), df'')"
    unfolding change_timezone_of_field_def m s l Let_def
    by (simp add: s1 c)
  then obtain df'' where run2: "change_timezone_of_field example_tzdb example_stamps ''CreationDate''
       ''_Pacific'' ''UTC'' ''US/Pacific'' = (Some (UnknownTimeZoneError ''US/Pacific''), df'')"
    by blast
  note t2 = change_timezone_adds_field [OF run2]
  note raised = t2 [THEN conjunct2, THEN conjunct2, THEN conjunct2, THEN conjunct1, rule_format]
  have n2: "names df'' = [''globalid'', ''CreationDate'', ''EditDate'']"
    using raised [THEN conjunct1] by (simp add: names_def example_stamps_def)
  have len2: "length (rows df'') = 2"
    using t2 [THEN conjunct2, THEN conjunct1] len by simp
  have ed2: "series df'' ''EditDate'' = series example_stamps ''EditDate''"
    by (rule t2 [THEN conjunct2, THEN conjunct2, THEN conjunct1, rule_format]) simp
  have dt0: "col_dtype example_stamps ''CreationDate'' = datetime64"
    by (simp add: col_dtype_def example_stamps_def)
  have "series df'' ''CreationDate'' \<noteq> series example_stamps ''CreationDate''"
    using run2 unfolding change_timezone_of_field_def m s l Let_def
    by (auto simp: s1 c)
  with raised [THEN conjunct2, THEN conjunct2]
  have ty2: "col_dtype df'' ''CreationDate'' = datetime64tz ''UTC''" by blast
  have first: "\<exists>df'. change_timezone_of_field example_tzdb example_stamps ''CreationDate''
            ''_Pacific'' ''UTC'' ''Etc/GMT+8'' = (None, df') \<and>
      names df' = [''globalid'', ''CreationDate'', ''EditDate'', ''CreationDate_Pacific''] \<and>
      col_dtype df' ''CreationDate_Pacific'' = datetime64tz ''Etc/GMT+8'' \<and>
      col_dtype df' ''CreationDate'' = datetime64tz ''UTC'' \<and>
      series df' ''EditDate'' = series example_stamps ''EditDate'' \<and>
      (rows df' ! 0) ''CreationDate_Pacific'' = TsV 1630454400000000000 \<and>
      (rows df' ! 0) ''CreationDate'' = TsV 1630454400000000000 \<and>
      (rows df' ! 0) ''EditDate'' = TsV 1630458000000000000 \<and>
      (rows df' ! 1) ''CreationDate_Pacific'' = NA"
    by (intro exI [of _ df'] conjI run n ty ed v0 v1)
  have second: "\<exists>df'. change_timezone_of_field example_tzdb example_stamps ''CreationDate''
            ''_Pacific'' ''UTC'' ''US/Pacific'' = (Some (UnknownTimeZoneError ''US/Pacific''), df') \<and>
      names df' = [''globalid'', ''CreationDate'', ''EditDate''] \<and>
      length (rows df') = 2 \<and>
      series df' ''EditDate'' = series example_stamps ''EditDate'' \<and>
      col_dtype example_stamps ''CreationDate'' = datetime64 \<and>
      col_dtype df' ''CreationDate'' = datetime64tz ''UTC''"
    by (intro exI [of _ df''] conjI run2 n2 len2 ed2 dt0 ty2)
  show ?thesis by (intro conjI first second)
qed

section \<open>Dusky neckband exports\<close>

text \<open>
  C5.  What the code does on the example table, against the claim.  The second
  observation point has all of its 30 \<open>DuskyCollar\<close> fields null, and yet it is a row of
  the export to Migratory Birds and of the export to refuge staff: the row filter of
  cell 19 looks at every field whose name contains \<open>DuskyCollar\<close>, and
  \<open>NumberDuskyCollars\<close>, which is 0 on that row, is one of them.
\<close>

theorem collarless_row_is_exported:
  "length (filter (startswith ''DuskyCollar'') neckband_columns) = 30 \<and>
   list_all (\<lambda>c. (rows example_neckband_joined ! 1) c = NA)
     (filter (startswith ''DuskyCollar'') neckband_columns) \<and>
   (rows example_neckband_joined ! 1) ''globalid_y'' = StrV ''p2'' \<and>
   (\<exists>d. dfDuskyNeckbandMB example_neckband_joined = Inr d \<and>
      map (\<lambda>r. (r ''globalid'', r ''DuskyCollar1'', r ''Pres'')) (rows d) =
        [(StrV ''p1'', StrV ''A12'', IntV 3), (StrV ''p2'', NA, IntV 4)]) \<and>
   (\<exists>d. dfDuskyNeckbandNWR example_neckband_joined = Inr d \<and>
      map (\<lambda>r. (r ''occurrenceID'', r ''DuskyCollar1'', r ''DuskyCount'')) (rows d) =
        [(StrV ''p1'', StrV ''A12'', IntV 3), (StrV ''p2'', NA, IntV 4)])"
proof -
  have "(rows example_neckband_joined ! 1) ''globalid_y'' = StrV ''p2''"
    by (simp add: example_neckband_joined_def example_neckband_rows_def)
  then show ?thesis
    using example_collars_null dfDuskyNeckbandMB_example dfDuskyNeckbandNWR_example
    by blast
qed

end
